theory Spec2Isabelle
  imports Complex_Main
begin

unbundle bit_operations_syntax

section \<open>Python values, exceptions and the I2C device\<close>

text \<open>
  The driver is dynamically typed and validates its arguments with \<^verbatim>\<open>isinstance\<close>,
  so arguments are modelled as Python values. A \<^verbatim>\<open>float\<close> is modelled by the real
  number it denotes (no NaN, no infinities). Comparing floats is exact. Multiplying
  them is not: the platform rounds the exact product to a float, and how it rounds
  (IEEE binary64 on CPython, shorter floats on a microcontroller) is left open as the
  parameter \<open>fl\<close> of the operations that multiply.
  A slice object carries start, stop and step; the driver never reads the step.
\<close>

datatype pyval =
    PInt int
  | PBool bool
  | PFloat real
  | PStr string
  | PNone
  | PList "pyval list"
  | PSlice pyval pyval pyval

text \<open>
  The exceptions the driver can raise: \<^verbatim>\<open>ValueError\<close> from its own checks (the
  specification's InvalidArgument), \<^verbatim>\<open>TypeError\<close> and \<^verbatim>\<open>IndexError\<close> from the
  Python operations it applies to unchecked arguments, and \<^verbatim>\<open>OSError\<close> from the bus.
\<close>

datatype error = ValueError | TypeError | IndexError | OSError

text \<open>\<^verbatim>\<open>isinstance(v, int)\<close>: \<^verbatim>\<open>bool\<close> is a subclass of \<^verbatim>\<open>int\<close>.\<close>

fun isinstance_int :: "pyval \<Rightarrow> bool" where
  "isinstance_int (PInt i) = True"
| "isinstance_int (PBool b) = True"
| "isinstance_int v = False"

fun isinstance_float :: "pyval \<Rightarrow> bool" where
  "isinstance_float (PFloat r) = True"
| "isinstance_float v = False"

text \<open>The integer an \<^verbatim>\<open>int\<close> instance stands for (\<^verbatim>\<open>True\<close> is 1, \<^verbatim>\<open>False\<close> is 0);
  only read under an \<^verbatim>\<open>isinstance(v, int)\<close> guard.\<close>

fun int_of :: "pyval \<Rightarrow> int" where
  "int_of (PInt i) = i"
| "int_of (PBool b) = (if b then 1 else 0)"
| "int_of v = 0"

text \<open>The number a value stands for in a comparison or a product; \<open>None\<close> where Python
  raises \<^verbatim>\<open>TypeError\<close> on comparing the value with a number.\<close>

fun num_of :: "pyval \<Rightarrow> real option" where
  "num_of (PInt i) = Some (of_int i)"
| "num_of (PBool b) = Some (if b then 1 else 0)"
| "num_of (PFloat r) = Some r"
| "num_of v = None"

text \<open>The same as a total function; only read under an \<^verbatim>\<open>isinstance\<close> guard for
  \<^verbatim>\<open>float\<close> or \<^verbatim>\<open>int\<close>.\<close>

fun num_val :: "pyval \<Rightarrow> real" where
  "num_val (PInt i) = of_int i"
| "num_val (PBool b) = (if b then 1 else 0)"
| "num_val (PFloat r) = r"
| "num_val v = 0"

text \<open>\<^verbatim>\<open>v == 0\<close>: numbers compare by value, every other value is different from 0.\<close>

definition eq_zero :: "pyval \<Rightarrow> bool" where
  "eq_zero v = (num_of v = Some 0)"

text \<open>Truthiness, as tested by \<^verbatim>\<open>0x01 if value else 0x00\<close>.\<close>

fun truthy :: "pyval \<Rightarrow> bool" where
  "truthy (PInt i) = (i \<noteq> 0)"
| "truthy (PBool b) = b"
| "truthy (PFloat r) = (r \<noteq> 0)"
| "truthy (PStr s) = (s \<noteq> [])"
| "truthy PNone = False"
| "truthy (PList xs) = (xs \<noteq> [])"
| "truthy (PSlice a b c) = True"

text \<open>Indexing a Python list with a dynamic value: a non-integer index raises
  \<^verbatim>\<open>TypeError\<close>, a negative index counts from the end, an index outside the list raises
  \<^verbatim>\<open>IndexError\<close>.\<close>

definition list_getitem :: "'a list \<Rightarrow> pyval \<Rightarrow> error + 'a" where
  "list_getitem xs k =
     (if \<not> isinstance_int k then Inl TypeError
      else if - int (length xs) \<le> int_of k \<and> int_of k < 0
        then Inr (xs ! nat (int (length xs) + int_of k))
      else if 0 \<le> int_of k \<and> int_of k < int (length xs)
        then Inr (xs ! nat (int_of k))
      else Inl IndexError)"

text \<open>\<^verbatim>\<open>color[k]\<close> on an arbitrary value: lists and strings are subscriptable, the other
  values raise \<^verbatim>\<open>TypeError\<close>.\<close>

fun py_getitem :: "pyval \<Rightarrow> int \<Rightarrow> error + pyval" where
  "py_getitem (PList xs) k = list_getitem xs (PInt k)"
| "py_getitem (PStr s) k = list_getitem (map (\<lambda>c. PStr [c]) s) (PInt k)"
| "py_getitem v k = Inl TypeError"

text \<open>\<^verbatim>\<open>v & m\<close> with an integer mask: defined on \<^verbatim>\<open>int\<close> instances only.\<close>

definition py_and :: "pyval \<Rightarrow> int \<Rightarrow> error + int" where
  "py_and v m = (if isinstance_int v then Inr (int_of v AND m) else Inl TypeError)"

text \<open>Python's \<^verbatim>\<open>round\<close>: to the nearest integer, a tie to the even neighbour; and
  \<^verbatim>\<open>round(x, 2)\<close>, the same at two decimals.\<close>

definition py_round :: "real \<Rightarrow> int" where
  "py_round x =
     (let f = \<lfloor>x\<rfloor>; d = x - of_int f
      in if d < 1 / 2 then f else if 1 / 2 < d then f + 1
         else if even f then f else f + 1)"

definition py_round2 :: "real \<Rightarrow> real" where
  "py_round2 x = of_int (py_round (x * 100)) / 100"

text \<open>
  The bus device. Every \<^verbatim>\<open>i2c.write(buf)\<close> and \<^verbatim>\<open>i2c.readinto(buf)\<close> is logged on
  \<open>wire\<close>; \<open>pending\<close> holds the bytes the hub will answer with, in order. A read of
  \<open>n\<close> bytes takes the next \<open>n\<close> pending bytes and raises \<^verbatim>\<open>OSError\<close> when the hub
  has fewer to give. Writes are taken to succeed. The \<^verbatim>\<open>with\<close> block only locks the bus.
  A buffer is the list of its bytes. With one exception the driver only stores in a
  \<^verbatim>\<open>bytearray\<close> a selector, a masked value or a value it has just range-checked, all
  within 0..255, so the store itself never raises. The exception is the brightness
  byte, whose store is modelled with its range check.
\<close>

datatype event = Write "int list" | Read nat

record i2c_device =
  wire :: "event list"
  pending :: "int list"

definition i2c_write :: "int list \<Rightarrow> i2c_device \<Rightarrow> i2c_device" where
  "i2c_write buf dev = dev\<lparr>wire := wire dev @ [Write buf]\<rparr>"

definition i2c_readinto :: "nat \<Rightarrow> i2c_device \<Rightarrow> (error + int list) \<times> i2c_device" where
  "i2c_readinto n dev =
     (if length (pending dev) < n then (Inl OSError, dev)
      else (Inr (take n (pending dev)),
            dev\<lparr>wire := wire dev @ [Read n], pending := drop n (pending dev)\<rparr>))"

text \<open>The pattern shared by every getter: write the one-byte selector, then read
  \<open>n\<close> bytes back.\<close>

definition read_reg :: "int \<Rightarrow> nat \<Rightarrow> i2c_device \<Rightarrow> (error + int list) \<times> i2c_device" where
  "read_reg reg n dev = i2c_readinto n (i2c_write [reg] dev)"

definition CHANNEL_BASE_REG :: "int list" where
  "CHANNEL_BASE_REG = [0x40, 0x50, 0x60, 0x70, 0x80, 0xA0]"

definition MAX_NUM_OF_LED :: int where
  "MAX_NUM_OF_LED = 74"

section \<open>The hub\<close>

definition PbHub_firmware_version :: "i2c_device \<Rightarrow> (error + int) \<times> i2c_device" where
  "PbHub_firmware_version dev =
     (case read_reg 0xFE 1 dev of
        (Inl e, dev') \<Rightarrow> (Inl e, dev')
      | (Inr buf, dev') \<Rightarrow> (Inr (buf ! 0), dev'))"

section \<open>Channel endpoints\<close>

text \<open>
  \<^verbatim>\<open>_PbHubChannel\<close> holds the channel and the io pin; its subclasses add the cached
  register selector(s). The four subclasses with one \<^verbatim>\<open>_reg_num\<close> share a record and
  differ in their \<^verbatim>\<open>_set_reg\<close>; the overridden method is passed to the inherited
  constructor and setters as an argument. The hub handle only carries the bus device,
  which the operations below take and return.
\<close>

record PbHubChannel =
  channel :: pyval
  io :: pyval

record PbHubRegChannel = PbHubChannel +
  reg_num :: int

record PbHubServo = PbHubChannel +
  reg_num_angle :: int
  reg_num_pulse :: int

text \<open>\<^verbatim>\<open>_PbHubChannel.__init__\<close> stores both arguments as they come and calls
  \<^verbatim>\<open>_set_reg\<close>; \<open>self\<close> is the object with the two fields stored.\<close>

definition PbHubChannel_init ::
  "('a PbHubChannel_scheme \<Rightarrow> error + 'a PbHubChannel_scheme) \<Rightarrow>
   'a PbHubChannel_scheme \<Rightarrow> error + 'a PbHubChannel_scheme" where
  "PbHubChannel_init set_reg self = set_reg self"

text \<open>The property setters: on a failed check nothing is stored; otherwise the value
  is stored and \<^verbatim>\<open>_set_reg\<close> runs on the updated object.\<close>

definition channel_setter ::
  "('a PbHubChannel_scheme \<Rightarrow> error + 'a PbHubChannel_scheme) \<Rightarrow> pyval \<Rightarrow>
   'a PbHubChannel_scheme \<Rightarrow> (error + unit) \<times> 'a PbHubChannel_scheme" where
  "channel_setter set_reg v self =
     (if \<not> isinstance_int v then (Inl ValueError, self)
      else if int_of v < 0 \<or> int_of v > 5 then (Inl ValueError, self)
      else (case set_reg (self\<lparr>channel := v\<rparr>) of
              Inl e \<Rightarrow> (Inl e, self\<lparr>channel := v\<rparr>)
            | Inr self' \<Rightarrow> (Inr (), self')))"

definition io_setter ::
  "('a PbHubChannel_scheme \<Rightarrow> error + 'a PbHubChannel_scheme) \<Rightarrow> pyval \<Rightarrow>
   'a PbHubChannel_scheme \<Rightarrow> (error + unit) \<times> 'a PbHubChannel_scheme" where
  "io_setter set_reg v self =
     (if \<not> isinstance_int v then (Inl ValueError, self)
      else if int_of v < 0 \<or> int_of v > 1 then (Inl ValueError, self)
      else (case set_reg (self\<lparr>io := v\<rparr>) of
              Inl e \<Rightarrow> (Inl e, self\<lparr>io := v\<rparr>)
            | Inr self' \<Rightarrow> (Inr (), self')))"

text \<open>The \<^verbatim>\<open>_set_reg\<close> of a one-register class, with the two sub-function codes.\<close>

definition set_reg_codes :: "int \<Rightarrow> int \<Rightarrow> PbHubRegChannel \<Rightarrow> error + PbHubRegChannel" where
  "set_reg_codes code0 code1 self =
     (case list_getitem CHANNEL_BASE_REG (channel self) of
        Inl e \<Rightarrow> Inl e
      | Inr base \<Rightarrow> Inr (self\<lparr>reg_num := base OR (if eq_zero (io self) then code0 else code1)\<rparr>))"

subsection \<open>PbHubDigitalInput\<close>

definition PbHubDigitalInput_set_reg :: "PbHubRegChannel \<Rightarrow> error + PbHubRegChannel" where
  "PbHubDigitalInput_set_reg = set_reg_codes 0x04 0x05"

definition PbHubDigitalInput_init :: "pyval \<Rightarrow> pyval \<Rightarrow> error + PbHubRegChannel" where
  "PbHubDigitalInput_init ch i =
     PbHubChannel_init PbHubDigitalInput_set_reg \<lparr>channel = ch, io = i, reg_num = 0\<rparr>"

definition PbHubDigitalInput_value ::
  "PbHubRegChannel \<Rightarrow> i2c_device \<Rightarrow> (error + bool) \<times> i2c_device" where
  "PbHubDigitalInput_value self dev =
     (case read_reg (reg_num self) 1 dev of
        (Inl e, dev') \<Rightarrow> (Inl e, dev')
      | (Inr buf, dev') \<Rightarrow> (Inr (buf ! 0 = 1), dev'))"

subsection \<open>PbHubDigitalOutput\<close>

definition PbHubDigitalOutput_set_reg :: "PbHubRegChannel \<Rightarrow> error + PbHubRegChannel" where
  "PbHubDigitalOutput_set_reg = set_reg_codes 0x00 0x01"

definition PbHubDigitalOutput_init :: "pyval \<Rightarrow> pyval \<Rightarrow> error + PbHubRegChannel" where
  "PbHubDigitalOutput_init ch i =
     PbHubChannel_init PbHubDigitalOutput_set_reg \<lparr>channel = ch, io = i, reg_num = 0\<rparr>"

definition PbHubDigitalOutput_value ::
  "PbHubRegChannel \<Rightarrow> i2c_device \<Rightarrow> (error + bool) \<times> i2c_device" where
  "PbHubDigitalOutput_value self dev =
     (case read_reg (reg_num self) 1 dev of
        (Inl e, dev') \<Rightarrow> (Inl e, dev')
      | (Inr buf, dev') \<Rightarrow> (Inr (buf ! 0 = 1), dev'))"

definition PbHubDigitalOutput_value_setter ::
  "pyval \<Rightarrow> PbHubRegChannel \<Rightarrow> i2c_device \<Rightarrow> (error + unit) \<times> i2c_device" where
  "PbHubDigitalOutput_value_setter v self dev =
     (Inr (), i2c_write [reg_num self, if truthy v then 0x01 else 0x00] dev)"

subsection \<open>PbHubAnalogInput\<close>

definition PbHubAnalogInput_set_reg :: "PbHubRegChannel \<Rightarrow> error + PbHubRegChannel" where
  "PbHubAnalogInput_set_reg self =
     (case list_getitem CHANNEL_BASE_REG (channel self) of
        Inl e \<Rightarrow> Inl e
      | Inr base \<Rightarrow> Inr (self\<lparr>reg_num := base OR 0x06\<rparr>))"

definition PbHubAnalogInput_init :: "pyval \<Rightarrow> error + PbHubRegChannel" where
  "PbHubAnalogInput_init ch =
     PbHubChannel_init PbHubAnalogInput_set_reg \<lparr>channel = ch, io = PInt 0, reg_num = 0\<rparr>"

definition PbHubAnalogInput_value ::
  "PbHubRegChannel \<Rightarrow> i2c_device \<Rightarrow> (error + int) \<times> i2c_device" where
  "PbHubAnalogInput_value self dev =
     (case read_reg (reg_num self) 2 dev of
        (Inl e, dev') \<Rightarrow> (Inl e, dev')
      | (Inr bufRet, dev') \<Rightarrow> (Inr (push_bit 8 (bufRet ! 1) OR bufRet ! 0), dev'))"

subsection \<open>PbHubPwmOutput\<close>

definition PbHubPwmOutput_set_reg :: "PbHubRegChannel \<Rightarrow> error + PbHubRegChannel" where
  "PbHubPwmOutput_set_reg = set_reg_codes 0x02 0x03"

definition PbHubPwmOutput_init :: "pyval \<Rightarrow> pyval \<Rightarrow> error + PbHubRegChannel" where
  "PbHubPwmOutput_init ch i =
     PbHubChannel_init PbHubPwmOutput_set_reg \<lparr>channel = ch, io = i, reg_num = 0\<rparr>"

definition PbHubPwmOutput_value ::
  "PbHubRegChannel \<Rightarrow> i2c_device \<Rightarrow> (error + int) \<times> i2c_device" where
  "PbHubPwmOutput_value self dev =
     (case read_reg (reg_num self) 1 dev of
        (Inl e, dev') \<Rightarrow> (Inl e, dev')
      | (Inr buf, dev') \<Rightarrow> (Inr (buf ! 0), dev'))"

definition PbHubPwmOutput_value_setter ::
  "pyval \<Rightarrow> PbHubRegChannel \<Rightarrow> i2c_device \<Rightarrow> (error + unit) \<times> i2c_device" where
  "PbHubPwmOutput_value_setter v self dev =
     (if \<not> isinstance_int v then (Inl ValueError, dev)
      else if int_of v < 0 \<or> int_of v > 255 then (Inl ValueError, dev)
      else (Inr (), i2c_write [reg_num self, int_of v AND 0xFF] dev))"

subsection \<open>PbHubServo\<close>

definition PbHubServo_set_reg :: "PbHubServo \<Rightarrow> error + PbHubServo" where
  "PbHubServo_set_reg self =
     (case list_getitem CHANNEL_BASE_REG (channel self) of
        Inl e \<Rightarrow> Inl e
      | Inr base \<Rightarrow>
          Inr (self\<lparr>reg_num_angle := base OR (if eq_zero (io self) then 0x0C else 0x0D),
                    reg_num_pulse := base OR (if eq_zero (io self) then 0x0E else 0x0F)\<rparr>))"

definition PbHubServo_init :: "pyval \<Rightarrow> pyval \<Rightarrow> error + PbHubServo" where
  "PbHubServo_init ch i =
     PbHubChannel_init PbHubServo_set_reg
       \<lparr>channel = ch, io = i, reg_num_angle = 0, reg_num_pulse = 0\<rparr>"

definition PbHubServo_angle :: "PbHubServo \<Rightarrow> i2c_device \<Rightarrow> (error + int) \<times> i2c_device" where
  "PbHubServo_angle self dev =
     (case read_reg (reg_num_angle self) 1 dev of
        (Inl e, dev') \<Rightarrow> (Inl e, dev')
      | (Inr buf, dev') \<Rightarrow> (Inr (buf ! 0), dev'))"

definition PbHubServo_angle_setter ::
  "pyval \<Rightarrow> PbHubServo \<Rightarrow> i2c_device \<Rightarrow> (error + unit) \<times> i2c_device" where
  "PbHubServo_angle_setter angle self dev =
     (if \<not> isinstance_int angle then (Inl ValueError, dev)
      else if int_of angle < 0 \<or> int_of angle > 180 then (Inl ValueError, dev)
      else (Inr (), i2c_write [reg_num_angle self, int_of angle] dev))"

definition PbHubServo_pulse :: "PbHubServo \<Rightarrow> i2c_device \<Rightarrow> (error + int) \<times> i2c_device" where
  "PbHubServo_pulse self dev =
     (case read_reg (reg_num_pulse self) 2 dev of
        (Inl e, dev') \<Rightarrow> (Inl e, dev')
      | (Inr bufRet, dev') \<Rightarrow> (Inr (push_bit 8 (bufRet ! 1) OR bufRet ! 0), dev'))"

definition PbHubServo_pulse_setter ::
  "pyval \<Rightarrow> PbHubServo \<Rightarrow> i2c_device \<Rightarrow> (error + unit) \<times> i2c_device" where
  "PbHubServo_pulse_setter pulse_width self dev =
     (if \<not> isinstance_int pulse_width then (Inl ValueError, dev)
      else if int_of pulse_width < 500 \<or> int_of pulse_width > 2500 then (Inl ValueError, dev)
      else (Inr (), i2c_write [reg_num_pulse self, int_of pulse_width AND 0xFF,
                               drop_bit 8 (int_of pulse_width AND 0xFF00)] dev))"

section \<open>NeoPixels\<close>

text \<open>The strip's \<^verbatim>\<open>_channel\<close> is the field \<open>led_channel\<close>, named apart from the
  endpoints' \<open>channel\<close>.\<close>

record NeoPixels =
  led_channel :: pyval
  reg_num_num_leds :: int
  reg_num_brightness :: int
  reg_num_one_led_color :: int
  reg_num_range_led_color :: int

definition NeoPixels_set_reg :: "NeoPixels \<Rightarrow> error + NeoPixels" where
  "NeoPixels_set_reg self =
     (case list_getitem CHANNEL_BASE_REG (led_channel self) of
        Inl e \<Rightarrow> Inl e
      | Inr base \<Rightarrow>
          Inr (self\<lparr>reg_num_num_leds := base OR 0x08,
                    reg_num_brightness := base OR 0x0B,
                    reg_num_one_led_color := base OR 0x09,
                    reg_num_range_led_color := base OR 0x0A\<rparr>))"

definition NeoPixels_number_of_leds ::
  "NeoPixels \<Rightarrow> i2c_device \<Rightarrow> (error + int) \<times> i2c_device" where
  "NeoPixels_number_of_leds self dev =
     (case read_reg (reg_num_num_leds self) 1 dev of
        (Inl e, dev') \<Rightarrow> (Inl e, dev')
      | (Inr buf, dev') \<Rightarrow> (Inr (buf ! 0), dev'))"

definition NeoPixels_number_of_leds_setter ::
  "pyval \<Rightarrow> NeoPixels \<Rightarrow> i2c_device \<Rightarrow> (error + unit) \<times> i2c_device" where
  "NeoPixels_number_of_leds_setter number self dev =
     (if \<not> isinstance_int number then (Inl ValueError, dev)
      else if int_of number < 0 \<or> int_of number > MAX_NUM_OF_LED then (Inl ValueError, dev)
      else (Inr (), i2c_write [reg_num_num_leds self, int_of number AND 0xFF,
                               drop_bit 8 (int_of number) AND 0xFF] dev))"

definition NeoPixels_brightness ::
  "NeoPixels \<Rightarrow> i2c_device \<Rightarrow> (error + real) \<times> i2c_device" where
  "NeoPixels_brightness self dev =
     (case read_reg (reg_num_num_leds self) 1 dev of
        (Inl e, dev') \<Rightarrow> (Inl e, dev')
      | (Inr buf, dev') \<Rightarrow> (Inr (py_round2 (of_int (buf ! 0) / 255)), dev'))"

text \<open>
  The getter's result is given as the decimal number it stands for.

  \<^verbatim>\<open>round(255 * value)\<close> in the setter: for an \<^verbatim>\<open>int\<close> the product is exact and
  \<^verbatim>\<open>round\<close> returns it; for a \<^verbatim>\<open>float\<close> the product is the exact product rounded to
  a float by \<open>fl\<close>, and \<^verbatim>\<open>round\<close> is exact on the float it is given.
\<close>

definition round_255 :: "(real \<Rightarrow> real) \<Rightarrow> pyval \<Rightarrow> int" where
  "round_255 fl v =
     (if isinstance_float v then py_round (fl (255 * num_val v)) else 255 * int_of v)"

text \<open>\<^verbatim>\<open>buf[1] = round(255 * value)\<close> stands before the \<^verbatim>\<open>with\<close> block: a
  \<^verbatim>\<open>bytearray\<close> refuses a value outside 0..255 with \<^verbatim>\<open>ValueError\<close>, and the bus is
  not touched then.\<close>

definition NeoPixels_brightness_setter ::
  "(real \<Rightarrow> real) \<Rightarrow> pyval \<Rightarrow> NeoPixels \<Rightarrow> i2c_device \<Rightarrow>
   (error + unit) \<times> i2c_device" where
  "NeoPixels_brightness_setter fl v self dev =
     (if \<not> isinstance_float v \<and> \<not> isinstance_int v then (Inl ValueError, dev)
      else if num_val v < 0 \<or> num_val v > 1 then (Inl ValueError, dev)
      else if round_255 fl v < 0 \<or> 255 < round_255 fl v then (Inl ValueError, dev)
      else (Inr (), i2c_write [reg_num_brightness self, round_255 fl v] dev))"

text \<open>\<^verbatim>\<open>NeoPixels.__init__\<close>: the channel check, \<^verbatim>\<open>_set_reg\<close>, then the two property
  setters, each of which writes to the bus.\<close>

definition NeoPixels_init ::
  "(real \<Rightarrow> real) \<Rightarrow> pyval \<Rightarrow> pyval \<Rightarrow> pyval \<Rightarrow> i2c_device \<Rightarrow>
   (error + NeoPixels) \<times> i2c_device" where
  "NeoPixels_init fl ch number brightness dev =
     (if \<not> isinstance_int ch then (Inl ValueError, dev)
      else if int_of ch < 0 \<or> int_of ch > 5 then (Inl ValueError, dev)
      else
        (case NeoPixels_set_reg
                \<lparr>led_channel = ch, reg_num_num_leds = 0, reg_num_brightness = 0,
                 reg_num_one_led_color = 0, reg_num_range_led_color = 0\<rparr> of
           Inl e \<Rightarrow> (Inl e, dev)
         | Inr self \<Rightarrow>
             (case NeoPixels_number_of_leds_setter number self dev of
                (Inl e, dev1) \<Rightarrow> (Inl e, dev1)
              | (Inr u, dev1) \<Rightarrow>
                  (case NeoPixels_brightness_setter fl brightness self dev1 of
                     (Inl e, dev2) \<Rightarrow> (Inl e, dev2)
                   | (Inr u', dev2) \<Rightarrow> (Inr self, dev2)))))"

text \<open>The three colour bytes, written the same way in both branches of
  \<^verbatim>\<open>__setitem__\<close>: an \<^verbatim>\<open>int\<close> is unpacked by shifts and masks, anything else is
  subscripted at 0, 1 and 2 in this order, each element masked as it is read.\<close>

definition color_bytes :: "pyval \<Rightarrow> error + int list" where
  "color_bytes color =
     (if isinstance_int color
      then Inr [drop_bit 16 (int_of color) AND 0xFF,
                drop_bit 8 (int_of color) AND 0xFF,
                int_of color AND 0xFF]
      else
        (case py_getitem color 0 of Inl e \<Rightarrow> Inl e | Inr c0 \<Rightarrow>
        (case py_and c0 0xFF of Inl e \<Rightarrow> Inl e | Inr r \<Rightarrow>
        (case py_getitem color 1 of Inl e \<Rightarrow> Inl e | Inr c1 \<Rightarrow>
        (case py_and c1 0xFF of Inl e \<Rightarrow> Inl e | Inr g \<Rightarrow>
        (case py_getitem color 2 of Inl e \<Rightarrow> Inl e | Inr c2 \<Rightarrow>
        (case py_and c2 0xFF of Inl e \<Rightarrow> Inl e | Inr b \<Rightarrow>
           Inr [r, g, b])))))))"

text \<open>
  The slice branch compares the bounds before anything else, so a bound that is not a
  number raises \<^verbatim>\<open>TypeError\<close> there. Bounds that are numbers but not both \<^verbatim>\<open>int\<close>
  pass the comparisons and the \<^verbatim>\<open>count == 0\<close> return, and raise \<^verbatim>\<open>TypeError\<close> at the
  first \<^verbatim>\<open>&\<close> on a float, before the colour is read.
\<close>

text \<open>The two branches of \<^verbatim>\<open>__setitem__\<close>, for a slice and for any other index.\<close>

definition setitem_slice ::
  "pyval \<Rightarrow> pyval \<Rightarrow> pyval \<Rightarrow> NeoPixels \<Rightarrow> i2c_device \<Rightarrow> (error + unit) \<times> i2c_device" where
  "setitem_slice start stop color self dev =
     (case num_of start of None \<Rightarrow> (Inl TypeError, dev) | Some s \<Rightarrow>
      if s < 0 \<or> s > of_int MAX_NUM_OF_LED then (Inl ValueError, dev)
      else
     (case num_of stop of None \<Rightarrow> (Inl TypeError, dev) | Some e \<Rightarrow>
      if e < 0 \<or> e > of_int MAX_NUM_OF_LED then (Inl ValueError, dev)
      else if e < s then (Inl ValueError, dev)
      else if e - s = 0 then (Inr (), dev)
      else if \<not> (isinstance_int start \<and> isinstance_int stop) then (Inl TypeError, dev)
      else
        (case color_bytes color of
           Inl err \<Rightarrow> (Inl err, dev)
         | Inr rgb \<Rightarrow>
             (Inr (), i2c_write
                ([reg_num_range_led_color self,
                  int_of start AND 0xFF,
                  drop_bit 8 (int_of start) AND 0xFF,
                  (int_of stop - int_of start) AND 0xFF,
                  drop_bit 8 (int_of stop - int_of start) AND 0xFF] @ rgb) dev))))"

definition setitem_index ::
  "pyval \<Rightarrow> pyval \<Rightarrow> NeoPixels \<Rightarrow> i2c_device \<Rightarrow> (error + unit) \<times> i2c_device" where
  "setitem_index index color self dev =
     (if \<not> isinstance_int index then (Inl ValueError, dev)
      else if int_of index < 0 \<or> int_of index > MAX_NUM_OF_LED then (Inl ValueError, dev)
      else
        (case color_bytes color of
           Inl err \<Rightarrow> (Inl err, dev)
         | Inr rgb \<Rightarrow>
             (Inr (), i2c_write
                ([reg_num_one_led_color self,
                  int_of index AND 0xFF,
                  drop_bit 8 (int_of index) AND 0xFF] @ rgb) dev)))"

fun NeoPixels_setitem ::
  "pyval \<Rightarrow> pyval \<Rightarrow> NeoPixels \<Rightarrow> i2c_device \<Rightarrow> (error + unit) \<times> i2c_device" where
  "NeoPixels_setitem (PSlice start stop step) color self dev =
     setitem_slice start stop color self dev"
| "NeoPixels_setitem index color self dev = setitem_index index color self dev"

definition NeoPixels_fill ::
  "pyval \<Rightarrow> NeoPixels \<Rightarrow> i2c_device \<Rightarrow> (error + unit) \<times> i2c_device" where
  "NeoPixels_fill color self dev =
     (case NeoPixels_number_of_leds self dev of
        (Inl e, dev') \<Rightarrow> (Inl e, dev')
      | (Inr n, dev') \<Rightarrow> NeoPixels_setitem (PSlice (PInt 0) (PInt n) PNone) color self dev')"

section \<open>Observing the bus\<close>

text \<open>The register selectors on the wire, in order: the first byte of every write
  transaction.\<close>

fun selectors :: "event list \<Rightarrow> int list" where
  "selectors [] = []"
| "selectors (Write (reg # payload) # es) = reg # selectors es"
| "selectors (Write [] # es) = selectors es"
| "selectors (Read n # es) = selectors es"

text \<open>The strip object \<^verbatim>\<open>NeoPixels(hub, 0, ...)\<close> leaves behind: channel 0 and its four
  selectors.\<close>

definition strip0 :: NeoPixels where
  "strip0 = \<lparr>led_channel = PInt 0, reg_num_num_leds = 0x48, reg_num_brightness = 0x4B,
             reg_num_one_led_color = 0x49, reg_num_range_led_color = 0x4A\<rparr>"

text \<open>
  What the theorems on the brightness byte ask of the platform's rounding: it is
  monotone and leaves 0 and 255, which are floats, as they are. Every rounding to a
  nearest float is of this kind.
\<close>

definition float_rounding :: "(real \<Rightarrow> real) \<Rightarrow> bool" where
  "float_rounding fl = (mono fl \<and> fl 0 = 0 \<and> fl 255 = 255)"

text \<open>
  An instance: rounding to the nearest multiple of \<open>2^-52\<close>, a tie to the even
  multiple. This is how IEEE binary64 arithmetic rounds a result between 1 and 2.
\<close>

definition round_2p52 :: "real \<Rightarrow> real" where
  "round_2p52 x = of_int (py_round (x * 2 ^ 52)) / 2 ^ 52"

section \<open>Bytes, table lookups and reads\<close>

lemma selectors_append: "selectors (es @ fs) = selectors es @ selectors fs"
  by (induction es rule: selectors.induct) simp_all

lemma and_255_take_bit: "(x::int) AND 255 = take_bit 8 x"
  by (simp add: take_bit_eq_mask mask_eq_exp_minus_1)

lemma and_255_mod: "(x::int) AND 255 = x mod 256"
  by (simp add: and_255_take_bit take_bit_eq_mod)

lemma base_lookup:
  "isinstance_int v \<Longrightarrow> 0 \<le> int_of v \<Longrightarrow> int_of v \<le> 5 \<Longrightarrow>
   list_getitem CHANNEL_BASE_REG v = Inr (CHANNEL_BASE_REG ! nat (int_of v))"
  by (simp add: list_getitem_def CHANNEL_BASE_REG_def)

lemma read_reg_one:
  "pending dev = b # rest \<Longrightarrow>
   read_reg reg (Suc 0) dev =
     (Inr [b], dev\<lparr>wire := wire dev @ [Write [reg], Read (Suc 0)], pending := rest\<rparr>)"
  by (simp add: read_reg_def i2c_readinto_def i2c_write_def)

lemma read_reg_two:
  "pending dev = lo # hi # rest \<Longrightarrow>
   read_reg reg 2 dev =
     (Inr [lo, hi], dev\<lparr>wire := wire dev @ [Write [reg], Read 2], pending := rest\<rparr>)"
  by (simp add: read_reg_def i2c_readinto_def i2c_write_def)

lemma read_reg_selectors:
  "selectors (wire (snd (read_reg reg n dev))) = selectors (wire dev) @ [reg]"
  by (simp add: read_reg_def i2c_readinto_def i2c_write_def selectors_append)

text \<open>Two-byte answers are little-endian: the wire bytes 0x34, 0x12 read as 0x1234.\<close>

lemma two_byte_reads:
  "pending dev = lo # hi # rest \<Longrightarrow>
   PbHubAnalogInput_value e dev =
     (Inr (push_bit 8 hi OR lo),
      dev\<lparr>wire := wire dev @ [Write [reg_num e], Read 2], pending := rest\<rparr>)"
  "pending dev = lo # hi # rest \<Longrightarrow>
   PbHubServo_pulse s dev =
     (Inr (push_bit 8 hi OR lo),
      dev\<lparr>wire := wire dev @ [Write [reg_num_pulse s], Read 2], pending := rest\<rparr>)"
  by (simp_all add: PbHubAnalogInput_value_def PbHubServo_pulse_def read_reg_two)

lemma analog_read_0x1234:
  "fst (PbHubAnalogInput_value e \<lparr>wire = [], pending = [0x34, 0x12]\<rparr>) = Inr 0x1234"
  by (simp add: two_byte_reads)

lemma strip0_set_reg:
  "NeoPixels_set_reg \<lparr>led_channel = PInt 0, reg_num_num_leds = 0, reg_num_brightness = 0,
     reg_num_one_led_color = 0, reg_num_range_led_color = 0\<rparr> = Inr strip0"
  by (simp add: NeoPixels_set_reg_def list_getitem_def CHANNEL_BASE_REG_def strip0_def)

section \<open>The led count\<close>

text \<open>
  C1, as the code has it. The \<^verbatim>\<open>number_of_leds\<close> getter writes the one-byte count
  selector, reads ONE byte back and returns that byte as it is. The setter raises
  ValueError, with the bus untouched, for every value that is not an \<^verbatim>\<open>int\<close> or lies
  outside 0..74; for every integer \<open>n\<close> in 0..74 it issues the single write
  \<open>[count selector, n & 0xFF, n >> 8]\<close>.
\<close>

theorem number_of_leds_one_byte:
  "(pending dev = b # rest \<longrightarrow>
      NeoPixels_number_of_leds self dev =
        (Inr b, dev\<lparr>wire := wire dev @ [Write [reg_num_num_leds self], Read 1],
                    pending := rest\<rparr>))
   \<and> (\<not> isinstance_int v \<or> int_of v < 0 \<or> 74 < int_of v \<longrightarrow>
      NeoPixels_number_of_leds_setter v self dev = (Inl ValueError, dev))
   \<and> (0 \<le> n \<and> n \<le> 74 \<longrightarrow>
      NeoPixels_number_of_leds_setter (PInt n) self dev =
        (Inr (), dev\<lparr>wire := wire dev @
                      [Write [reg_num_num_leds self, n AND 0xFF, drop_bit 8 n]]\<rparr>))"
proof (intro conjI impI)
  assume "pending dev = b # rest"
  then show "NeoPixels_number_of_leds self dev =
        (Inr b, dev\<lparr>wire := wire dev @ [Write [reg_num_num_leds self], Read 1],
                    pending := rest\<rparr>)"
    by (simp add: NeoPixels_number_of_leds_def read_reg_one)
next
  assume "\<not> isinstance_int v \<or> int_of v < 0 \<or> 74 < int_of v"
  then show "NeoPixels_number_of_leds_setter v self dev = (Inl ValueError, dev)"
    by (auto simp add: NeoPixels_number_of_leds_setter_def MAX_NUM_OF_LED_def)
next
  assume n: "0 \<le> n \<and> n \<le> 74"
  then have "drop_bit 8 n = 0"
    by (simp add: drop_bit_eq_div)
  with n show "NeoPixels_number_of_leds_setter (PInt n) self dev =
        (Inr (), dev\<lparr>wire := wire dev @
                      [Write [reg_num_num_leds self, n AND 0xFF, drop_bit 8 n]]\<rparr>)"
    by (simp add: NeoPixels_number_of_leds_setter_def MAX_NUM_OF_LED_def i2c_write_def)
qed

text \<open>On channel 0: the hub answers 10; 75 is refused; 74 is written as \<open>[0x48, 74, 0]\<close>.\<close>

theorem number_of_leds_one_byte_witness:
  "NeoPixels_number_of_leds strip0 \<lparr>wire = [], pending = [10]\<rparr>
     = (Inr 10, \<lparr>wire = [Write [0x48], Read 1], pending = []\<rparr>)
   \<and> NeoPixels_number_of_leds_setter (PInt 75) strip0 \<lparr>wire = [], pending = [10]\<rparr>
     = (Inl ValueError, \<lparr>wire = [], pending = [10]\<rparr>)
   \<and> NeoPixels_number_of_leds_setter (PInt 74) strip0 \<lparr>wire = [], pending = [10]\<rparr>
     = (Inr (), \<lparr>wire = [Write [0x48, 74, 0]], pending = [10]\<rparr>)"
  using number_of_leds_one_byte
    [of "\<lparr>wire = [], pending = [10]\<rparr>" 10 "[]" strip0 "PInt 75" 74]
  by (simp add: strip0_def)

text \<open>
  The claim's getter, a two-byte little-endian read returning \<open>low | (high << 8)\<close>, is
  not what runs: with the hub ready to answer 10 and then 1, the getter reads one
  byte and returns 10, not 266, and the second byte stays unread.
\<close>

theorem number_of_leds_getter_counterexample:
  "NeoPixels_number_of_leds strip0 \<lparr>wire = [], pending = [10, 1]\<rparr>
     = (Inr 10, \<lparr>wire = [Write [0x48], Read 1], pending = [1]\<rparr>)
   \<and> NeoPixels_number_of_leds strip0 \<lparr>wire = [], pending = [10, 1]\<rparr>
     \<noteq> (Inr (10 OR push_bit 8 1), \<lparr>wire = [Write [0x48], Read 2], pending = []\<rparr>)"
  by (simp add: NeoPixels_number_of_leds_def read_reg_one strip0_def)

section \<open>Cached selectors\<close>

lemma getter_selectors:
  "selectors (wire (snd (case read_reg reg n dev of
        (Inl e, dev') \<Rightarrow> (Inl e, dev')
      | (Inr buf, dev') \<Rightarrow> (Inr (f buf), dev')))) = selectors (wire dev) @ [reg]"
proof -
  have "snd (case read_reg reg n dev of
        (Inl e, dev') \<Rightarrow> (Inl e, dev')
      | (Inr buf, dev') \<Rightarrow> (Inr (f buf), dev')) = snd (read_reg reg n dev)"
    by (simp split: prod.split sum.split)
  then show ?thesis by (simp only: read_reg_selectors)
qed

lemma set_reg_codes_ok:
  "0 \<le> c \<Longrightarrow> c \<le> 5 \<Longrightarrow>
   set_reg_codes code0 code1 \<lparr>channel = PInt c, io = PInt i, reg_num = r\<rparr> =
     Inr \<lparr>channel = PInt c, io = PInt i,
          reg_num = CHANNEL_BASE_REG ! nat c OR (if i = 0 then code0 else code1)\<rparr>"
  by (simp add: set_reg_codes_def base_lookup eq_zero_def)

lemma digital_input_regs:
  assumes "0 \<le> c" "c \<le> 5"
  shows "PbHubDigitalInput_init (PInt c) (PInt 0) =
           Inr \<lparr>channel = PInt c, io = PInt 0, reg_num = CHANNEL_BASE_REG ! nat c OR 0x04\<rparr>"
    and "PbHubDigitalInput_init (PInt c) (PInt 1) =
           Inr \<lparr>channel = PInt c, io = PInt 1, reg_num = CHANNEL_BASE_REG ! nat c OR 0x05\<rparr>"
  using assms
  by (simp_all add: PbHubDigitalInput_init_def PbHubChannel_init_def
      PbHubDigitalInput_set_reg_def set_reg_codes_ok)

lemma digital_output_regs:
  assumes "0 \<le> c" "c \<le> 5"
  shows "PbHubDigitalOutput_init (PInt c) (PInt 0) =
           Inr \<lparr>channel = PInt c, io = PInt 0, reg_num = CHANNEL_BASE_REG ! nat c OR 0x00\<rparr>"
    and "PbHubDigitalOutput_init (PInt c) (PInt 1) =
           Inr \<lparr>channel = PInt c, io = PInt 1, reg_num = CHANNEL_BASE_REG ! nat c OR 0x01\<rparr>"
  using assms
  by (simp_all add: PbHubDigitalOutput_init_def PbHubChannel_init_def
      PbHubDigitalOutput_set_reg_def set_reg_codes_ok)

lemma analog_input_regs:
  assumes "0 \<le> c" "c \<le> 5"
  shows "PbHubAnalogInput_init (PInt c) =
           Inr \<lparr>channel = PInt c, io = PInt 0, reg_num = CHANNEL_BASE_REG ! nat c OR 0x06\<rparr>"
  using assms
  by (simp add: PbHubAnalogInput_init_def PbHubChannel_init_def
      PbHubAnalogInput_set_reg_def base_lookup)

lemma pwm_output_regs:
  assumes "0 \<le> c" "c \<le> 5"
  shows "PbHubPwmOutput_init (PInt c) (PInt 0) =
           Inr \<lparr>channel = PInt c, io = PInt 0, reg_num = CHANNEL_BASE_REG ! nat c OR 0x02\<rparr>"
    and "PbHubPwmOutput_init (PInt c) (PInt 1) =
           Inr \<lparr>channel = PInt c, io = PInt 1, reg_num = CHANNEL_BASE_REG ! nat c OR 0x03\<rparr>"
  using assms
  by (simp_all add: PbHubPwmOutput_init_def PbHubChannel_init_def
      PbHubPwmOutput_set_reg_def set_reg_codes_ok)

lemma servo_regs:
  assumes "0 \<le> c" "c \<le> 5"
  shows "PbHubServo_init (PInt c) (PInt 0) =
           Inr \<lparr>channel = PInt c, io = PInt 0,
                reg_num_angle = CHANNEL_BASE_REG ! nat c OR 0x0C,
                reg_num_pulse = CHANNEL_BASE_REG ! nat c OR 0x0E\<rparr>"
    and "PbHubServo_init (PInt c) (PInt 1) =
           Inr \<lparr>channel = PInt c, io = PInt 1,
                reg_num_angle = CHANNEL_BASE_REG ! nat c OR 0x0D,
                reg_num_pulse = CHANNEL_BASE_REG ! nat c OR 0x0F\<rparr>"
  using assms
  by (simp_all add: PbHubServo_init_def PbHubChannel_init_def
      PbHubServo_set_reg_def base_lookup eq_zero_def)

lemma neopixels_regs:
  assumes "isinstance_int ch" "0 \<le> int_of ch" "int_of ch \<le> 5"
  shows "NeoPixels_set_reg \<lparr>led_channel = ch, reg_num_num_leds = r1,
             reg_num_brightness = r2, reg_num_one_led_color = r3,
             reg_num_range_led_color = r4\<rparr> =
           Inr \<lparr>led_channel = ch,
                reg_num_num_leds = CHANNEL_BASE_REG ! nat (int_of ch) OR 0x08,
                reg_num_brightness = CHANNEL_BASE_REG ! nat (int_of ch) OR 0x0B,
                reg_num_one_led_color = CHANNEL_BASE_REG ! nat (int_of ch) OR 0x09,
                reg_num_range_led_color = CHANNEL_BASE_REG ! nat (int_of ch) OR 0x0A\<rparr>"
  using assms by (simp add: NeoPixels_set_reg_def base_lookup)

section \<open>Colour bytes\<close>

lemma color_bytes_int:
  "color_bytes (PInt v) = Inr [v div 65536 mod 256, v div 256 mod 256, v mod 256]"
  by (simp add: color_bytes_def and_255_mod drop_bit_eq_div)

lemma color_bytes_list:
  "color_bytes (PList [PInt r, PInt g, PInt b]) = Inr [r mod 256, g mod 256, b mod 256]"
  by (simp add: color_bytes_def list_getitem_def py_and_def and_255_mod)

lemma setitem_index_ok:
  assumes "isinstance_int index" "0 \<le> int_of index" "int_of index \<le> 74"
    and "color_bytes color = Inr rgb"
  shows "NeoPixels_setitem index color p dev =
     (Inr (), dev\<lparr>wire := wire dev @
        [Write ([reg_num_one_led_color p, int_of index mod 256, int_of index div 256 mod 256]
                @ rgb)]\<rparr>)"
  using assms
  by (cases index)
     (simp_all add: setitem_index_def MAX_NUM_OF_LED_def i2c_write_def and_255_mod
        drop_bit_eq_div)

lemma setitem_index_reject:
  assumes "\<not> isinstance_int index \<or> int_of index < 0 \<or> 74 < int_of index"
    and "\<And>a b c. index \<noteq> PSlice a b c"
  shows "NeoPixels_setitem index color p dev = (Inl ValueError, dev)"
  using assms
  by (cases index) (auto simp add: setitem_index_def MAX_NUM_OF_LED_def)

lemma setitem_slice_reject:
  assumes "s < 0 \<or> 74 < s \<or> e < 0 \<or> 74 < e \<or> e < s"
  shows "NeoPixels_setitem (PSlice (PInt s) (PInt e) st) color p dev = (Inl ValueError, dev)"
  using assms by (auto simp add: setitem_slice_def MAX_NUM_OF_LED_def)

lemma setitem_slice_empty:
  assumes "0 \<le> s" "s \<le> 74"
  shows "NeoPixels_setitem (PSlice (PInt s) (PInt s) st) color p dev = (Inr (), dev)"
  using assms by (simp add: setitem_slice_def MAX_NUM_OF_LED_def)

lemma setitem_slice_ok:
  assumes "0 \<le> s" "s < e" "e \<le> 74" and "color_bytes color = Inr rgb"
  shows "NeoPixels_setitem (PSlice (PInt s) (PInt e) st) color p dev =
     (Inr (), dev\<lparr>wire := wire dev @
        [Write ([reg_num_range_led_color p, s mod 256, s div 256 mod 256,
                 (e - s) mod 256, (e - s) div 256 mod 256] @ rgb)]\<rparr>)"
  using assms
  by (simp add: setitem_slice_def MAX_NUM_OF_LED_def i2c_write_def and_255_mod drop_bit_eq_div)


lemma byte_bit_bound:
  fixes x :: int
  assumes "0 \<le> x" "x \<le> 255" "bit x n"
  shows "n < 8"
proof -
  have "take_bit 8 x = x"
    using assms(1,2) by (simp add: take_bit_int_eq_self)
  with assms(3) have "bit (take_bit 8 x) n"
    by (simp only:)
  then show ?thesis
    by (simp only: bit_take_bit_iff)
qed

lemma unpack_rgb:
  fixes r g b :: int
  assumes "0 \<le> r" "r \<le> 255" "0 \<le> g" "g \<le> 255" "0 \<le> b" "b \<le> 255"
  shows "drop_bit 16 (push_bit 16 r OR push_bit 8 g OR b) AND 255 = r"
    and "drop_bit 8 (push_bit 16 r OR push_bit 8 g OR b) AND 255 = g"
    and "(push_bit 16 r OR push_bit 8 g OR b) AND 255 = b"
proof -
  note br = byte_bit_bound [OF assms(1,2)]
  note bg = byte_bit_bound [OF assms(3,4)]
  note bb = byte_bit_bound [OF assms(5,6)]
  show "drop_bit 16 (push_bit 16 r OR push_bit 8 g OR b) AND 255 = r"
    unfolding and_255_take_bit
    by (rule bit_eqI) (auto simp add: bit_simps dest: br bg bb)
  show "drop_bit 8 (push_bit 16 r OR push_bit 8 g OR b) AND 255 = g"
    unfolding and_255_take_bit
    by (rule bit_eqI) (auto simp add: bit_simps dest: br bg bb)
  show "(push_bit 16 r OR push_bit 8 g OR b) AND 255 = b"
    unfolding and_255_take_bit
    by (rule bit_eqI) (auto simp add: bit_simps dest: br bg bb)
qed

lemma color_bytes_packed:
  assumes "0 \<le> r" "r \<le> 255" "0 \<le> g" "g \<le> 255" "0 \<le> b" "b \<le> 255"
  shows "color_bytes (PInt (push_bit 16 r OR push_bit 8 g OR b)) = Inr [r, g, b]"
  using unpack_rgb [OF assms] by (simp add: color_bytes_def)

lemma color_bytes_triple:
  assumes "0 \<le> r" "r \<le> 255" "0 \<le> g" "g \<le> 255" "0 \<le> b" "b \<le> 255"
  shows "color_bytes (PList [PInt r, PInt g, PInt b]) = Inr [r, g, b]"
  using assms by (simp add: color_bytes_list)

lemma setitem_color_bytes:
  assumes "color_bytes c1 = color_bytes c2"
  shows "NeoPixels_setitem index c1 p dev = NeoPixels_setitem index c2 p dev"
  unfolding setitem_index_def setitem_slice_def assms
  by (cases index) (simp_all only: NeoPixels_setitem.simps setitem_index_def setitem_slice_def assms)

lemma low_24_bits:
  "drop_bit 16 (v mod 2 ^ 24) AND 255 = drop_bit 16 (v::int) AND 255"
  "drop_bit 8 (v mod 2 ^ 24) AND 255 = drop_bit 8 (v::int) AND 255"
  "(v mod 2 ^ 24) AND 255 = v AND 255"
  unfolding and_255_take_bit take_bit_eq_mod [symmetric]
  by (simp_all add: take_bit_drop_bit)

lemma color_bytes_mod:
  "color_bytes (PInt (v mod 2 ^ 24)) = color_bytes (PInt v)"
  unfolding color_bytes_def by (simp only: isinstance_int.simps int_of.simps if_True low_24_bits)

section \<open>Constructing and re-targeting an endpoint\<close>

text \<open>
  C2 asks for InvalidArgument (\<^verbatim>\<open>ValueError\<close>) when an endpoint is constructed with a
  channel outside 0..5 or an io outside 0..1. \<^verbatim>\<open>_PbHubChannel.__init__\<close> stores both
  arguments unchecked and goes straight to \<^verbatim>\<open>_set_reg\<close>, so what happens is decided by
  the table lookup: channel 6 raises \<^verbatim>\<open>IndexError\<close> in all five classes, a string
  raises \<^verbatim>\<open>TypeError\<close>, channel -1 is accepted and addresses the last base 0xA0, and an
  io of 2 or of \<^verbatim>\<open>'a'\<close> is accepted and addressed as io 1.
\<close>

theorem channel_init_not_validated:
  "PbHubDigitalInput_init (PInt 6) (PInt 0) = Inl IndexError
   \<and> PbHubDigitalOutput_init (PInt 6) (PInt 0) = Inl IndexError
   \<and> PbHubAnalogInput_init (PInt 6) = Inl IndexError
   \<and> PbHubPwmOutput_init (PInt 6) (PInt 0) = Inl IndexError
   \<and> PbHubServo_init (PInt 6) (PInt 0) = Inl IndexError
   \<and> PbHubDigitalInput_init (PStr ''1'') (PInt 0) = Inl TypeError
   \<and> PbHubDigitalInput_init (PInt (- 1)) (PInt 0) =
       Inr \<lparr>channel = PInt (- 1), io = PInt 0, reg_num = 0xA4\<rparr>
   \<and> PbHubDigitalInput_init (PInt 0) (PInt 2) =
       Inr \<lparr>channel = PInt 0, io = PInt 2, reg_num = 0x45\<rparr>
   \<and> PbHubDigitalInput_init (PInt 0) (PStr ''a'') =
       Inr \<lparr>channel = PInt 0, io = PStr ''a'', reg_num = 0x45\<rparr>"
  by (simp add: PbHubDigitalInput_init_def PbHubDigitalOutput_init_def PbHubAnalogInput_init_def
      PbHubPwmOutput_init_def PbHubServo_init_def PbHubChannel_init_def
      PbHubDigitalInput_set_reg_def PbHubDigitalOutput_set_reg_def PbHubAnalogInput_set_reg_def
      PbHubPwmOutput_set_reg_def PbHubServo_set_reg_def set_reg_codes_def list_getitem_def
      CHANNEL_BASE_REG_def eq_zero_def)

text \<open>
  The property setters do check: a value that is not an \<^verbatim>\<open>int\<close>, or outside 0..5 for
  the channel and 0..1 for the io, raises \<^verbatim>\<open>ValueError\<close> and leaves the whole endpoint
  (channel, io and cached selectors) as it was, whatever the class's \<^verbatim>\<open>_set_reg\<close>.
\<close>

theorem property_setters_reject:
  "(\<not> isinstance_int v \<or> int_of v < 0 \<or> 5 < int_of v \<longrightarrow>
      channel_setter set_reg v self = (Inl ValueError, self))
   \<and> (\<not> isinstance_int v \<or> int_of v < 0 \<or> 1 < int_of v \<longrightarrow>
      io_setter set_reg v self = (Inl ValueError, self))"
  by (auto simp add: channel_setter_def io_setter_def)

theorem property_setters_reject_witness:
  "channel_setter PbHubServo_set_reg (PInt 6)
     \<lparr>channel = PInt 5, io = PInt 1, reg_num_angle = 0xAD, reg_num_pulse = 0xAF\<rparr> =
     (Inl ValueError,
      \<lparr>channel = PInt 5, io = PInt 1, reg_num_angle = 0xAD, reg_num_pulse = 0xAF\<rparr>)
   \<and> io_setter PbHubServo_set_reg (PInt 6)
     \<lparr>channel = PInt 5, io = PInt 1, reg_num_angle = 0xAD, reg_num_pulse = 0xAF\<rparr> =
     (Inl ValueError,
      \<lparr>channel = PInt 5, io = PInt 1, reg_num_angle = 0xAD, reg_num_pulse = 0xAF\<rparr>)"
  using property_setters_reject [of "PInt 6" PbHubServo_set_reg
      "\<lparr>channel = PInt 5, io = PInt 1, reg_num_angle = 0xAD, reg_num_pulse = 0xAF\<rparr>"]
  by simp

text \<open>
  A valid assignment stores the value and recomputes the cached selectors at once
  from the new channel or io: both servo selectors together, and the single
  selector of a digital input.
\<close>

theorem property_setters_recompute:
  "(isinstance_int v \<and> 0 \<le> int_of v \<and> int_of v \<le> 5 \<longrightarrow>
      channel_setter PbHubServo_set_reg v s =
        (Inr (), s\<lparr>channel := v,
           reg_num_angle := CHANNEL_BASE_REG ! nat (int_of v) OR
             (if eq_zero (io s) then 0x0C else 0x0D),
           reg_num_pulse := CHANNEL_BASE_REG ! nat (int_of v) OR
             (if eq_zero (io s) then 0x0E else 0x0F)\<rparr>)
      \<and> channel_setter PbHubDigitalInput_set_reg v e =
        (Inr (), e\<lparr>channel := v,
           reg_num := CHANNEL_BASE_REG ! nat (int_of v) OR
             (if eq_zero (io e) then 0x04 else 0x05)\<rparr>))
   \<and> (isinstance_int v \<and> 0 \<le> int_of v \<and> int_of v \<le> 1
      \<and> isinstance_int (channel s) \<and> 0 \<le> int_of (channel s) \<and> int_of (channel s) \<le> 5 \<longrightarrow>
      io_setter PbHubServo_set_reg v s =
        (Inr (), s\<lparr>io := v,
           reg_num_angle := CHANNEL_BASE_REG ! nat (int_of (channel s)) OR
             (if int_of v = 0 then 0x0C else 0x0D),
           reg_num_pulse := CHANNEL_BASE_REG ! nat (int_of (channel s)) OR
             (if int_of v = 0 then 0x0E else 0x0F)\<rparr>))"
proof -
  have z: "isinstance_int v \<Longrightarrow> eq_zero v = (int_of v = 0)"
    by (cases v) (simp_all add: eq_zero_def)
  show ?thesis
    by (auto simp add: channel_setter_def io_setter_def PbHubServo_set_reg_def
        PbHubDigitalInput_set_reg_def set_reg_codes_def base_lookup z)
qed

text \<open>A servo moved from channel 5 to channel 2, a digital input likewise, and a servo
  moved from io 1 to io 0.\<close>

theorem property_setters_recompute_witness:
  "channel_setter PbHubServo_set_reg (PInt 2)
     \<lparr>channel = PInt 5, io = PInt 1, reg_num_angle = 0xAD, reg_num_pulse = 0xAF\<rparr> =
     (Inr (), \<lparr>channel = PInt 2, io = PInt 1, reg_num_angle = 0x6D, reg_num_pulse = 0x6F\<rparr>)
   \<and> channel_setter PbHubDigitalInput_set_reg (PInt 2)
     \<lparr>channel = PInt 5, io = PInt 0, reg_num = 0xA4\<rparr> =
     (Inr (), \<lparr>channel = PInt 2, io = PInt 0, reg_num = 0x64\<rparr>)
   \<and> io_setter PbHubServo_set_reg (PInt 0)
     \<lparr>channel = PInt 5, io = PInt 1, reg_num_angle = 0xAD, reg_num_pulse = 0xAF\<rparr> =
     (Inr (), \<lparr>channel = PInt 5, io = PInt 0, reg_num_angle = 0xAC, reg_num_pulse = 0xAE\<rparr>)"
  using property_setters_recompute [of "PInt 2"
      "\<lparr>channel = PInt 5, io = PInt 1, reg_num_angle = 0xAD, reg_num_pulse = 0xAF\<rparr>"
      "\<lparr>channel = PInt 5, io = PInt 0, reg_num = 0xA4\<rparr>"]
    property_setters_recompute [of "PInt 0"
      "\<lparr>channel = PInt 5, io = PInt 1, reg_num_angle = 0xAD, reg_num_pulse = 0xAF\<rparr>"
      "\<lparr>channel = PInt 5, io = PInt 0, reg_num = 0xA4\<rparr>"]
  by (simp add: CHANNEL_BASE_REG_def eq_zero_def)

section \<open>Pixel writes\<close>

text \<open>
  C3 puts index 74 out of range. The single-index branch tests
  \<^verbatim>\<open>index > _MAX_NUM_OF_LED\<close>, so 74 passes and one 6-byte write for a 75th pixel goes
  out.
\<close>

theorem setitem_index_74_accepted:
  "NeoPixels_setitem (PInt 74) (PInt 0xFF00FF) strip0 \<lparr>wire = [], pending = []\<rparr> =
     (Inr (), \<lparr>wire = [Write [0x49, 74, 0, 0xFF, 0x00, 0xFF]], pending = []\<rparr>)"
  by (simp add: setitem_index_def MAX_NUM_OF_LED_def color_bytes_def i2c_write_def strip0_def)

text \<open>
  What the single-index branch does: an index that is not an \<^verbatim>\<open>int\<close> (and not a slice)
  or lies outside 0..74 raises \<^verbatim>\<open>ValueError\<close> with the bus untouched; every
  \<^verbatim>\<open>int\<close> index in 0..74, with a colour that yields the bytes \<open>r, g, b\<close>, issues the one
  6-byte write \<open>[single-pixel selector, index low, index high, r, g, b]\<close>.
\<close>

theorem setitem_index_cases:
  "((\<not> isinstance_int index \<or> int_of index < 0 \<or> 74 < int_of index)
      \<and> (\<forall>a b st. index \<noteq> PSlice a b st) \<longrightarrow>
      NeoPixels_setitem index color p dev = (Inl ValueError, dev))
   \<and> (isinstance_int index \<and> 0 \<le> int_of index \<and> int_of index \<le> 74
      \<and> color_bytes color = Inr [r, g, b] \<longrightarrow>
      NeoPixels_setitem index color p dev =
        (Inr (), dev\<lparr>wire := wire dev @
           [Write [reg_num_one_led_color p, int_of index mod 256, int_of index div 256 mod 256,
                   r, g, b]]\<rparr>))"
proof (intro conjI impI)
  assume "(\<not> isinstance_int index \<or> int_of index < 0 \<or> 74 < int_of index)
      \<and> (\<forall>a b st. index \<noteq> PSlice a b st)"
  then show "NeoPixels_setitem index color p dev = (Inl ValueError, dev)"
    using setitem_index_reject [of index color p dev] by blast
next
  assume "isinstance_int index \<and> 0 \<le> int_of index \<and> int_of index \<le> 74
      \<and> color_bytes color = Inr [r, g, b]"
  then show "NeoPixels_setitem index color p dev =
        (Inr (), dev\<lparr>wire := wire dev @
           [Write [reg_num_one_led_color p, int_of index mod 256, int_of index div 256 mod 256,
                   r, g, b]]\<rparr>)"
    using setitem_index_ok [of index color "[r, g, b]" p dev] by simp
qed

text \<open>Index 75 and index 1.0 are refused; pixel 73 is set to red from a list.\<close>

theorem setitem_index_cases_witness:
  "NeoPixels_setitem (PInt 75) (PInt 0xFF0000) strip0 \<lparr>wire = [], pending = []\<rparr> =
     (Inl ValueError, \<lparr>wire = [], pending = []\<rparr>)
   \<and> NeoPixels_setitem (PFloat 1) (PInt 0xFF0000) strip0 \<lparr>wire = [], pending = []\<rparr> =
     (Inl ValueError, \<lparr>wire = [], pending = []\<rparr>)
   \<and> NeoPixels_setitem (PInt 73) (PList [PInt 255, PInt 0, PInt 0]) strip0
       \<lparr>wire = [], pending = []\<rparr> =
     (Inr (), \<lparr>wire = [Write [0x49, 73, 0, 0xFF, 0x00, 0x00]], pending = []\<rparr>)"
  using setitem_index_cases [of "PInt 75" "PInt 0xFF0000" strip0 "\<lparr>wire = [], pending = []\<rparr>"]
    setitem_index_cases [of "PFloat 1" "PInt 0xFF0000" strip0 "\<lparr>wire = [], pending = []\<rparr>"]
    setitem_index_cases [of "PInt 73" "PList [PInt 255, PInt 0, PInt 0]" strip0
      "\<lparr>wire = [], pending = []\<rparr>" 255 0 0]
  by (simp add: color_bytes_list strip0_def)

text \<open>
  C5. A slice assignment with integer bounds \<open>s\<close> and \<open>e\<close>: with a bound outside 0..74
  or \<open>e < s\<close> it raises \<^verbatim>\<open>ValueError\<close> and the bus is untouched; with \<open>e = s\<close> it
  returns with the bus untouched; otherwise, for a colour that yields the bytes
  \<open>r, g, b\<close>, it issues the one 8-byte write
  \<open>[range selector, s low, s high, count low, count high, r, g, b]\<close> with count
  \<open>e - s\<close>. Both kinds of colour yield their bytes: every integer, and every list
  of three integers.
\<close>

theorem setitem_slice_cases:
  "(s < 0 \<or> 74 < s \<or> e < 0 \<or> 74 < e \<or> e < s \<longrightarrow>
      NeoPixels_setitem (PSlice (PInt s) (PInt e) st) color p dev = (Inl ValueError, dev))
   \<and> (0 \<le> s \<and> s \<le> 74 \<and> e = s \<longrightarrow>
      NeoPixels_setitem (PSlice (PInt s) (PInt e) st) color p dev = (Inr (), dev))
   \<and> (0 \<le> s \<and> s < e \<and> e \<le> 74 \<and> color_bytes color = Inr [r, g, b] \<longrightarrow>
      NeoPixels_setitem (PSlice (PInt s) (PInt e) st) color p dev =
        (Inr (), dev\<lparr>wire := wire dev @
           [Write [reg_num_range_led_color p, s mod 256, s div 256 mod 256,
                   (e - s) mod 256, (e - s) div 256 mod 256, r, g, b]]\<rparr>))
   \<and> color_bytes (PInt v) = Inr [v div 65536 mod 256, v div 256 mod 256, v mod 256]
   \<and> color_bytes (PList [PInt cr, PInt cg, PInt cb]) =
       Inr [cr mod 256, cg mod 256, cb mod 256]"
proof (intro conjI impI)
  show "color_bytes (PInt v) = Inr [v div 65536 mod 256, v div 256 mod 256, v mod 256]"
    by (rule color_bytes_int)
  show "color_bytes (PList [PInt cr, PInt cg, PInt cb]) =
       Inr [cr mod 256, cg mod 256, cb mod 256]"
    by (rule color_bytes_list)
next
  assume "s < 0 \<or> 74 < s \<or> e < 0 \<or> 74 < e \<or> e < s"
  then show "NeoPixels_setitem (PSlice (PInt s) (PInt e) st) color p dev = (Inl ValueError, dev)"
    by (rule setitem_slice_reject)
next
  assume "0 \<le> s \<and> s \<le> 74 \<and> e = s"
  then show "NeoPixels_setitem (PSlice (PInt s) (PInt e) st) color p dev = (Inr (), dev)"
    using setitem_slice_empty [of s st color p dev] by blast
next
  assume "0 \<le> s \<and> s < e \<and> e \<le> 74 \<and> color_bytes color = Inr [r, g, b]"
  then show "NeoPixels_setitem (PSlice (PInt s) (PInt e) st) color p dev =
        (Inr (), dev\<lparr>wire := wire dev @
           [Write [reg_num_range_led_color p, s mod 256, s div 256 mod 256,
                   (e - s) mod 256, (e - s) div 256 mod 256, r, g, b]]\<rparr>)"
    using setitem_slice_ok [of s e color "[r, g, b]" st p dev] by simp
qed

text \<open>\<^verbatim>\<open>strip[5:2]\<close>, \<^verbatim>\<open>strip[3:3]\<close> and \<^verbatim>\<open>strip[1:3] = 0x00FFFF\<close> on channel 0.\<close>

theorem setitem_slice_cases_witness:
  "NeoPixels_setitem (PSlice (PInt 5) (PInt 2) PNone) (PInt 0x00FFFF) strip0
       \<lparr>wire = [], pending = []\<rparr> = (Inl ValueError, \<lparr>wire = [], pending = []\<rparr>)
   \<and> NeoPixels_setitem (PSlice (PInt 3) (PInt 3) PNone) (PInt 0x00FFFF) strip0
       \<lparr>wire = [], pending = []\<rparr> = (Inr (), \<lparr>wire = [], pending = []\<rparr>)
   \<and> NeoPixels_setitem (PSlice (PInt 1) (PInt 3) PNone) (PInt 0x00FFFF) strip0
       \<lparr>wire = [], pending = []\<rparr> =
       (Inr (), \<lparr>wire = [Write [0x4A, 1, 0, 2, 0, 0x00, 0xFF, 0xFF]], pending = []\<rparr>)"
  using setitem_slice_cases [of 5 2 PNone "PInt 0x00FFFF" strip0 "\<lparr>wire = [], pending = []\<rparr>"]
    setitem_slice_cases [of 3 3 PNone "PInt 0x00FFFF" strip0 "\<lparr>wire = [], pending = []\<rparr>"]
    setitem_slice_cases [of 1 3 PNone "PInt 0x00FFFF" strip0 "\<lparr>wire = [], pending = []\<rparr>"
      0 255 255]
  by (simp add: color_bytes_int strip0_def)

text \<open>
  C7. For bytes \<open>r, g, b\<close> in 0..255 the packed integer \<open>(r << 16) | (g << 8) | b\<close> and
  the list \<open>[r, g, b]\<close> give the same outcome for every index, single or slice, and
  the same bytes on the wire: at every valid single index both issue the one write
  \<open>[single-pixel selector, index low, index high, r, g, b]\<close>, and on every valid
  non-empty range both issue the one write
  \<open>[range selector, start low, start high, count low, count high, r, g, b]\<close>. In
  particular 0xFF00FF and \<open>[255, 0, 255]\<close> both put 0xFF, 0x00, 0xFF on the wire.
\<close>

theorem packed_and_triple_agree:
  assumes "0 \<le> r" "r \<le> 255" "0 \<le> g" "g \<le> 255" "0 \<le> b" "b \<le> 255"
  shows "NeoPixels_setitem index (PInt (push_bit 16 r OR push_bit 8 g OR b)) p dev =
         NeoPixels_setitem index (PList [PInt r, PInt g, PInt b]) p dev
     \<and> color_bytes (PInt (push_bit 16 r OR push_bit 8 g OR b)) = Inr [r, g, b]
     \<and> color_bytes (PList [PInt r, PInt g, PInt b]) = Inr [r, g, b]
     \<and> color_bytes (PInt 0xFF00FF) = Inr [0xFF, 0x00, 0xFF]
     \<and> color_bytes (PList [PInt 255, PInt 0, PInt 255]) = Inr [0xFF, 0x00, 0xFF]
     \<and> (isinstance_int index \<and> 0 \<le> int_of index \<and> int_of index \<le> 74 \<longrightarrow>
         NeoPixels_setitem index (PInt (push_bit 16 r OR push_bit 8 g OR b)) p dev =
           (Inr (), dev\<lparr>wire := wire dev @
              [Write [reg_num_one_led_color p, int_of index mod 256,
                      int_of index div 256 mod 256, r, g, b]]\<rparr>)
         \<and> NeoPixels_setitem index (PList [PInt r, PInt g, PInt b]) p dev =
           (Inr (), dev\<lparr>wire := wire dev @
              [Write [reg_num_one_led_color p, int_of index mod 256,
                      int_of index div 256 mod 256, r, g, b]]\<rparr>)
         \<and> NeoPixels_setitem index (PInt 0xFF00FF) p dev =
           (Inr (), dev\<lparr>wire := wire dev @
              [Write [reg_num_one_led_color p, int_of index mod 256,
                      int_of index div 256 mod 256, 0xFF, 0x00, 0xFF]]\<rparr>)
         \<and> NeoPixels_setitem index (PList [PInt 255, PInt 0, PInt 255]) p dev =
           (Inr (), dev\<lparr>wire := wire dev @
              [Write [reg_num_one_led_color p, int_of index mod 256,
                      int_of index div 256 mod 256, 0xFF, 0x00, 0xFF]]\<rparr>))
     \<and> (0 \<le> s \<and> s < e \<and> e \<le> 74 \<longrightarrow>
         NeoPixels_setitem (PSlice (PInt s) (PInt e) st)
             (PInt (push_bit 16 r OR push_bit 8 g OR b)) p dev =
           (Inr (), dev\<lparr>wire := wire dev @
              [Write [reg_num_range_led_color p, s mod 256, s div 256 mod 256,
                      (e - s) mod 256, (e - s) div 256 mod 256, r, g, b]]\<rparr>)
         \<and> NeoPixels_setitem (PSlice (PInt s) (PInt e) st)
             (PList [PInt r, PInt g, PInt b]) p dev =
           (Inr (), dev\<lparr>wire := wire dev @
              [Write [reg_num_range_led_color p, s mod 256, s div 256 mod 256,
                      (e - s) mod 256, (e - s) div 256 mod 256, r, g, b]]\<rparr>)
         \<and> NeoPixels_setitem (PSlice (PInt s) (PInt e) st) (PInt 0xFF00FF) p dev =
           (Inr (), dev\<lparr>wire := wire dev @
              [Write [reg_num_range_led_color p, s mod 256, s div 256 mod 256,
                      (e - s) mod 256, (e - s) div 256 mod 256, 0xFF, 0x00, 0xFF]]\<rparr>)
         \<and> NeoPixels_setitem (PSlice (PInt s) (PInt e) st)
             (PList [PInt 255, PInt 0, PInt 255]) p dev =
           (Inr (), dev\<lparr>wire := wire dev @
              [Write [reg_num_range_led_color p, s mod 256, s div 256 mod 256,
                      (e - s) mod 256, (e - s) div 256 mod 256, 0xFF, 0x00, 0xFF]]\<rparr>))"
proof -
  have pk: "color_bytes (PInt (push_bit 16 r OR push_bit 8 g OR b)) = Inr [r, g, b]"
    by (rule color_bytes_packed [OF assms])
  have tr: "color_bytes (PList [PInt r, PInt g, PInt b]) = Inr [r, g, b]"
    by (rule color_bytes_triple [OF assms])
  have ex: "color_bytes (PInt 0xFF00FF) = Inr [0xFF, 0x00, 0xFF]"
    "color_bytes (PList [PInt 255, PInt 0, PInt 255]) = Inr [0xFF, 0x00, 0xFF]"
    by (simp_all add: color_bytes_int color_bytes_list)
  have same: "NeoPixels_setitem index (PInt (push_bit 16 r OR push_bit 8 g OR b)) p dev =
         NeoPixels_setitem index (PList [PInt r, PInt g, PInt b]) p dev"
    by (rule setitem_color_bytes) (simp only: pk tr)
  have one: "isinstance_int index \<and> 0 \<le> int_of index \<and> int_of index \<le> 74 \<longrightarrow>
         NeoPixels_setitem index (PInt (push_bit 16 r OR push_bit 8 g OR b)) p dev =
           (Inr (), dev\<lparr>wire := wire dev @
              [Write [reg_num_one_led_color p, int_of index mod 256,
                      int_of index div 256 mod 256, r, g, b]]\<rparr>)
         \<and> NeoPixels_setitem index (PList [PInt r, PInt g, PInt b]) p dev =
           (Inr (), dev\<lparr>wire := wire dev @
              [Write [reg_num_one_led_color p, int_of index mod 256,
                      int_of index div 256 mod 256, r, g, b]]\<rparr>)
         \<and> NeoPixels_setitem index (PInt 0xFF00FF) p dev =
           (Inr (), dev\<lparr>wire := wire dev @
              [Write [reg_num_one_led_color p, int_of index mod 256,
                      int_of index div 256 mod 256, 0xFF, 0x00, 0xFF]]\<rparr>)
         \<and> NeoPixels_setitem index (PList [PInt 255, PInt 0, PInt 255]) p dev =
           (Inr (), dev\<lparr>wire := wire dev @
              [Write [reg_num_one_led_color p, int_of index mod 256,
                      int_of index div 256 mod 256, 0xFF, 0x00, 0xFF]]\<rparr>)"
    using setitem_index_ok [of index _ _ p dev, OF _ _ _ pk]
      setitem_index_ok [of index _ _ p dev, OF _ _ _ tr]
      setitem_index_ok [of index _ _ p dev, OF _ _ _ ex(1)]
      setitem_index_ok [of index _ _ p dev, OF _ _ _ ex(2)]
    by simp
  have range: "0 \<le> s \<and> s < e \<and> e \<le> 74 \<longrightarrow>
         NeoPixels_setitem (PSlice (PInt s) (PInt e) st)
             (PInt (push_bit 16 r OR push_bit 8 g OR b)) p dev =
           (Inr (), dev\<lparr>wire := wire dev @
              [Write [reg_num_range_led_color p, s mod 256, s div 256 mod 256,
                      (e - s) mod 256, (e - s) div 256 mod 256, r, g, b]]\<rparr>)
         \<and> NeoPixels_setitem (PSlice (PInt s) (PInt e) st)
             (PList [PInt r, PInt g, PInt b]) p dev =
           (Inr (), dev\<lparr>wire := wire dev @
              [Write [reg_num_range_led_color p, s mod 256, s div 256 mod 256,
                      (e - s) mod 256, (e - s) div 256 mod 256, r, g, b]]\<rparr>)
         \<and> NeoPixels_setitem (PSlice (PInt s) (PInt e) st) (PInt 0xFF00FF) p dev =
           (Inr (), dev\<lparr>wire := wire dev @
              [Write [reg_num_range_led_color p, s mod 256, s div 256 mod 256,
                      (e - s) mod 256, (e - s) div 256 mod 256, 0xFF, 0x00, 0xFF]]\<rparr>)
         \<and> NeoPixels_setitem (PSlice (PInt s) (PInt e) st)
             (PList [PInt 255, PInt 0, PInt 255]) p dev =
           (Inr (), dev\<lparr>wire := wire dev @
              [Write [reg_num_range_led_color p, s mod 256, s div 256 mod 256,
                      (e - s) mod 256, (e - s) div 256 mod 256, 0xFF, 0x00, 0xFF]]\<rparr>)"
    using setitem_slice_ok [of s e _ _ st p dev, OF _ _ _ pk]
      setitem_slice_ok [of s e _ _ st p dev, OF _ _ _ tr]
      setitem_slice_ok [of s e _ _ st p dev, OF _ _ _ ex(1)]
      setitem_slice_ok [of s e _ _ st p dev, OF _ _ _ ex(2)]
    by simp
  from same pk tr ex one range show ?thesis
    by (intro conjI)
qed

text \<open>Pixel 3 and pixels 1..2 in 0xFF00FF, both ways: the same bytes go out.\<close>

theorem packed_and_triple_agree_witness:
  "(0::int) \<le> 255 \<and> (255::int) \<le> 255 \<and> (0::int) \<le> 0 \<and> (0::int) \<le> 255
   \<and> NeoPixels_setitem (PInt 3) (PInt 0xFF00FF) strip0 \<lparr>wire = [], pending = []\<rparr> =
       (Inr (), \<lparr>wire = [Write [0x49, 3, 0, 0xFF, 0x00, 0xFF]], pending = []\<rparr>)
   \<and> NeoPixels_setitem (PInt 3) (PList [PInt 255, PInt 0, PInt 255]) strip0
         \<lparr>wire = [], pending = []\<rparr> =
       (Inr (), \<lparr>wire = [Write [0x49, 3, 0, 0xFF, 0x00, 0xFF]], pending = []\<rparr>)
   \<and> NeoPixels_setitem (PSlice (PInt 1) (PInt 3) PNone) (PInt 0xFF00FF) strip0
         \<lparr>wire = [], pending = []\<rparr> =
       (Inr (), \<lparr>wire = [Write [0x4A, 1, 0, 2, 0, 0xFF, 0x00, 0xFF]], pending = []\<rparr>)
   \<and> NeoPixels_setitem (PSlice (PInt 1) (PInt 3) PNone) (PList [PInt 255, PInt 0, PInt 255])
         strip0 \<lparr>wire = [], pending = []\<rparr> =
       (Inr (), \<lparr>wire = [Write [0x4A, 1, 0, 2, 0, 0xFF, 0x00, 0xFF]], pending = []\<rparr>)"
proof -
  have hi: "isinstance_int (PInt 3) \<and> 0 \<le> int_of (PInt 3) \<and> int_of (PInt 3) \<le> 74"
    by simp
  have hs: "(0::int) \<le> 1 \<and> (1::int) < 3 \<and> (3::int) \<le> 74"
    by simp
  have hb: "(0::int) \<le> 255" "(255::int) \<le> 255" "(0::int) \<le> 0" "(0::int) \<le> 255"
    by simp_all
  note t = packed_and_triple_agree
      [of 255 0 255 "PInt 3" strip0 "\<lparr>wire = [], pending = []\<rparr>" 1 3 PNone,
       OF hb(1) hb(2) hb(3) hb(4) hb(1) hb(2)]
  from t hi have
    "NeoPixels_setitem (PInt 3) (PInt 0xFF00FF) strip0 \<lparr>wire = [], pending = []\<rparr> =
       (Inr (), \<lparr>wire = [], pending = []\<rparr>\<lparr>wire := wire \<lparr>wire = [], pending = []\<rparr> @
          [Write [reg_num_one_led_color strip0, int_of (PInt 3) mod 256,
                  int_of (PInt 3) div 256 mod 256, 0xFF, 0x00, 0xFF]]\<rparr>)"
    "NeoPixels_setitem (PInt 3) (PList [PInt 255, PInt 0, PInt 255]) strip0
         \<lparr>wire = [], pending = []\<rparr> =
       (Inr (), \<lparr>wire = [], pending = []\<rparr>\<lparr>wire := wire \<lparr>wire = [], pending = []\<rparr> @
          [Write [reg_num_one_led_color strip0, int_of (PInt 3) mod 256,
                  int_of (PInt 3) div 256 mod 256, 0xFF, 0x00, 0xFF]]\<rparr>)"
    by blast+
  moreover from t hs have
    "NeoPixels_setitem (PSlice (PInt 1) (PInt 3) PNone) (PInt 0xFF00FF) strip0
         \<lparr>wire = [], pending = []\<rparr> =
       (Inr (), \<lparr>wire = [], pending = []\<rparr>\<lparr>wire := wire \<lparr>wire = [], pending = []\<rparr> @
          [Write [reg_num_range_led_color strip0, 1 mod 256, 1 div 256 mod 256,
                  (3 - 1) mod 256, (3 - 1) div 256 mod 256, 0xFF, 0x00, 0xFF]]\<rparr>)"
    "NeoPixels_setitem (PSlice (PInt 1) (PInt 3) PNone) (PList [PInt 255, PInt 0, PInt 255])
         strip0 \<lparr>wire = [], pending = []\<rparr> =
       (Inr (), \<lparr>wire = [], pending = []\<rparr>\<lparr>wire := wire \<lparr>wire = [], pending = []\<rparr> @
          [Write [reg_num_range_led_color strip0, 1 mod 256, 1 div 256 mod 256,
                  (3 - 1) mod 256, (3 - 1) div 256 mod 256, 0xFF, 0x00, 0xFF]]\<rparr>)"
    by blast+
  ultimately show ?thesis
    by (simp add: strip0_def)
qed

text \<open>
  C10. An integer colour is never checked: its bytes are \<open>(v >> 16) & 0xFF\<close>,
  \<open>(v >> 8) & 0xFF\<close>, \<open>v & 0xFF\<close> for every \<open>v\<close>, a write to a valid index or range
  succeeds whatever \<open>v\<close> is, and \<open>v\<close> and \<open>v mod 2^24\<close> give the same outcome for every
  index; 0x1000000 writes what 0 writes.
\<close>

theorem int_color_low_24_bits:
  "NeoPixels_setitem index (PInt v) p dev = NeoPixels_setitem index (PInt (v mod 2 ^ 24)) p dev
   \<and> color_bytes (PInt v) =
       Inr [drop_bit 16 v AND 0xFF, drop_bit 8 v AND 0xFF, v AND 0xFF]
   \<and> (isinstance_int index \<and> 0 \<le> int_of index \<and> int_of index \<le> 74 \<longrightarrow>
       NeoPixels_setitem index (PInt v) p dev =
         (Inr (), dev\<lparr>wire := wire dev @
            [Write [reg_num_one_led_color p, int_of index mod 256, int_of index div 256 mod 256,
                    drop_bit 16 v AND 0xFF, drop_bit 8 v AND 0xFF, v AND 0xFF]]\<rparr>))
   \<and> (0 \<le> s \<and> s < e \<and> e \<le> 74 \<longrightarrow>
       NeoPixels_setitem (PSlice (PInt s) (PInt e) st) (PInt v) p dev =
         (Inr (), dev\<lparr>wire := wire dev @
            [Write [reg_num_range_led_color p, s mod 256, s div 256 mod 256,
                    (e - s) mod 256, (e - s) div 256 mod 256,
                    drop_bit 16 v AND 0xFF, drop_bit 8 v AND 0xFF, v AND 0xFF]]\<rparr>))
   \<and> NeoPixels_setitem index (PInt 0x1000000) p dev = NeoPixels_setitem index (PInt 0) p dev"
proof -
  have cb: "color_bytes (PInt v) =
       Inr [drop_bit 16 v AND 0xFF, drop_bit 8 v AND 0xFF, v AND 0xFF]"
    by (simp add: color_bytes_def)
  have zero: "color_bytes (PInt 0x1000000) = color_bytes (PInt 0)"
    by (simp add: color_bytes_int)
  have m: "NeoPixels_setitem index (PInt v) p dev =
      NeoPixels_setitem index (PInt (v mod 2 ^ 24)) p dev"
    by (rule setitem_color_bytes) (simp only: color_bytes_mod)
  have z: "NeoPixels_setitem index (PInt 0x1000000) p dev = NeoPixels_setitem index (PInt 0) p dev"
    by (rule setitem_color_bytes [OF zero])
  have i: "isinstance_int index \<and> 0 \<le> int_of index \<and> int_of index \<le> 74 \<longrightarrow>
       NeoPixels_setitem index (PInt v) p dev =
         (Inr (), dev\<lparr>wire := wire dev @
            [Write [reg_num_one_led_color p, int_of index mod 256, int_of index div 256 mod 256,
                    drop_bit 16 v AND 0xFF, drop_bit 8 v AND 0xFF, v AND 0xFF]]\<rparr>)"
    using setitem_index_ok [of index "PInt v" _ p dev, OF _ _ _ cb] by simp
  have r: "0 \<le> s \<and> s < e \<and> e \<le> 74 \<longrightarrow>
       NeoPixels_setitem (PSlice (PInt s) (PInt e) st) (PInt v) p dev =
         (Inr (), dev\<lparr>wire := wire dev @
            [Write [reg_num_range_led_color p, s mod 256, s div 256 mod 256,
                    (e - s) mod 256, (e - s) div 256 mod 256,
                    drop_bit 16 v AND 0xFF, drop_bit 8 v AND 0xFF, v AND 0xFF]]\<rparr>)"
    using setitem_slice_ok [of s e "PInt v" _ st p dev, OF _ _ _ cb] by simp
  from m cb i r z show ?thesis
    by (intro conjI)
qed

text \<open>0x1FF00FF is written as 0xFF00FF, and -1 as white.\<close>

theorem int_color_low_24_bits_witness:
  "NeoPixels_setitem (PInt 3) (PInt 0x1FF00FF) strip0 \<lparr>wire = [], pending = []\<rparr> =
     (Inr (), \<lparr>wire = [Write [0x49, 3, 0, 0xFF, 0x00, 0xFF]], pending = []\<rparr>)
   \<and> NeoPixels_setitem (PSlice (PInt 1) (PInt 3) PNone) (PInt (- 1)) strip0
       \<lparr>wire = [], pending = []\<rparr> =
     (Inr (), \<lparr>wire = [Write [0x4A, 1, 0, 2, 0, 0xFF, 0xFF, 0xFF]], pending = []\<rparr>)"
proof -
  have hi: "isinstance_int (PInt 3) \<and> 0 \<le> int_of (PInt 3) \<and> int_of (PInt 3) \<le> 74"
    by simp
  have hs: "(0::int) \<le> 1 \<and> (1::int) < 3 \<and> (3::int) \<le> 74"
    by simp
  from hi int_color_low_24_bits
      [of "PInt 3" "0x1FF00FF" strip0 "\<lparr>wire = [], pending = []\<rparr>" 1 3 PNone]
  have "NeoPixels_setitem (PInt 3) (PInt 0x1FF00FF) strip0 \<lparr>wire = [], pending = []\<rparr> =
      (Inr (), \<lparr>wire = [], pending = []\<rparr>\<lparr>wire := wire \<lparr>wire = [], pending = []\<rparr> @
         [Write [reg_num_one_led_color strip0, int_of (PInt 3) mod 256,
                 int_of (PInt 3) div 256 mod 256,
                 drop_bit 16 0x1FF00FF AND 0xFF, drop_bit 8 0x1FF00FF AND 0xFF,
                 0x1FF00FF AND 0xFF]]\<rparr>)"
    by blast
  moreover
  from hs int_color_low_24_bits
      [of "PInt 3" "- 1" strip0 "\<lparr>wire = [], pending = []\<rparr>" 1 3 PNone]
  have "NeoPixels_setitem (PSlice (PInt 1) (PInt 3) PNone) (PInt (- 1)) strip0
        \<lparr>wire = [], pending = []\<rparr> =
      (Inr (), \<lparr>wire = [], pending = []\<rparr>\<lparr>wire := wire \<lparr>wire = [], pending = []\<rparr> @
         [Write [reg_num_range_led_color strip0, 1 mod 256, 1 div 256 mod 256,
                 (3 - 1) mod 256, (3 - 1) div 256 mod 256,
                 drop_bit 16 (- 1) AND 0xFF, drop_bit 8 (- 1) AND 0xFF, (- 1) AND 0xFF]]\<rparr>)"
    by blast
  ultimately show ?thesis
    by (simp add: strip0_def and_255_mod drop_bit_eq_div)
qed

section \<open>Brightness\<close>

lemma py_round_near: "\<bar>of_int (py_round y) - y\<bar> \<le> 1 / 2"
proof -
  have "of_int \<lfloor>y\<rfloor> \<le> y" "y < of_int \<lfloor>y\<rfloor> + 1"
    by linarith+
  then show ?thesis
    by (auto simp add: py_round_def Let_def)
qed

lemma py_round_byte:
  assumes "0 \<le> y" "y \<le> 255"
  shows "0 \<le> py_round y \<and> py_round y \<le> 255"
proof -
  define f where "f = \<lfloor>y\<rfloor>"
  have f0: "0 \<le> f"
    using assms(1) by (simp add: f_def)
  have f1: "f \<le> 255"
    using assms(2) by (simp add: f_def floor_le_iff)
  have "py_round y = f \<or> (py_round y = f + 1 \<and> of_int f + 1 / 2 \<le> y)"
    by (auto simp add: py_round_def Let_def f_def)
  then show ?thesis
  proof
    assume "py_round y = f"
    with f0 f1 show ?thesis by simp
  next
    assume up: "py_round y = f + 1 \<and> of_int f + 1 / 2 \<le> y"
    with assms(2) have "real_of_int f < 255"
      by linarith
    then have "f < 255"
      by simp
    with f0 up show ?thesis by simp
  qed
qed

lemma py_round2_near: "\<bar>py_round2 x - x\<bar> \<le> 1 / 200"
  using py_round_near [of "x * 100"] by (simp add: py_round2_def field_simps)

lemma py_round2_hundredths: "\<exists>k::int. py_round2 x = of_int k / 100"
  by (auto simp add: py_round2_def)

lemma brightness_getter:
  "pending dev = b # rest \<Longrightarrow>
   NeoPixels_brightness p dev =
     (Inr (py_round2 (of_int b / 255)),
      dev\<lparr>wire := wire dev @ [Write [reg_num_num_leds p], Read 1], pending := rest\<rparr>)"
  by (simp add: NeoPixels_brightness_def read_reg_one)

lemma py_round_mono:
  assumes "x \<le> y"
  shows "py_round x \<le> py_round y"
proof (cases "\<lfloor>x\<rfloor> = \<lfloor>y\<rfloor>")
  case True
  with assms show ?thesis
    by (auto simp add: py_round_def Let_def)
next
  case False
  with assms have "\<lfloor>x\<rfloor> + 1 \<le> \<lfloor>y\<rfloor>"
    using floor_mono [of x y] by linarith
  moreover have "py_round x \<le> \<lfloor>x\<rfloor> + 1"
    by (auto simp add: py_round_def Let_def)
  moreover have "\<lfloor>y\<rfloor> \<le> py_round y"
    by (auto simp add: py_round_def Let_def)
  ultimately show ?thesis
    by linarith
qed

lemma py_round_of_int: "py_round (of_int k) = k"
  by (simp add: py_round_def Let_def)

lemma round_2p52_rounding: "float_rounding round_2p52"
proof -
  have "mono round_2p52"
    by (rule monoI) (simp add: round_2p52_def divide_right_mono py_round_mono)
  moreover have "round_2p52 0 = 0"
    by (simp add: round_2p52_def py_round_def Let_def)
  moreover have "round_2p52 255 = 255"
  proof -
    have "(255::real) * 2 ^ 52 = of_int (255 * 2 ^ 52)"
      by simp
    then have "py_round (255 * 2 ^ 52) = 255 * 2 ^ 52"
      by (simp only: py_round_of_int)
    then show ?thesis
      by (simp add: round_2p52_def)
  qed
  ultimately show ?thesis
    by (simp add: float_rounding_def)
qed

lemma round_255_byte:
  assumes "float_rounding fl"
    and "(isinstance_float v \<or> isinstance_int v) \<and> 0 \<le> num_val v \<and> num_val v \<le> 1"
  shows "0 \<le> round_255 fl v \<and> round_255 fl v \<le> 255"
proof (cases "isinstance_float v")
  case True
  from assms(2) have "0 \<le> 255 * num_val v" "255 * num_val v \<le> 255"
    by simp_all
  with assms(1) have "0 \<le> fl (255 * num_val v)" "fl (255 * num_val v) \<le> 255"
    using monoD [of fl 0 "255 * num_val v"] monoD [of fl "255 * num_val v" 255]
    by (simp_all add: float_rounding_def)
  then have "0 \<le> py_round (fl (255 * num_val v)) \<and> py_round (fl (255 * num_val v)) \<le> 255"
    by (rule py_round_byte)
  with True show ?thesis
    by (simp add: round_255_def)
next
  case False
  with assms(2) have "isinstance_int v" "0 \<le> int_of v" "int_of v \<le> 1"
    by (cases v; simp split: if_splits)+
  with False show ?thesis
    by (simp add: round_255_def)
qed

lemma brightness_setter_reject:
  "(\<not> isinstance_float v \<and> \<not> isinstance_int v) \<or> num_val v < 0 \<or> 1 < num_val v \<Longrightarrow>
   NeoPixels_brightness_setter fl v p dev = (Inl ValueError, dev)"
  by (cases v) (auto simp add: NeoPixels_brightness_setter_def)

lemma brightness_setter_ok:
  assumes "float_rounding fl"
    and "(isinstance_float v \<or> isinstance_int v) \<and> 0 \<le> num_val v \<and> num_val v \<le> 1"
  shows "NeoPixels_brightness_setter fl v p dev =
     (Inr (), dev\<lparr>wire := wire dev @ [Write [reg_num_brightness p, round_255 fl v]]\<rparr>)"
  using assms(2) round_255_byte [OF assms]
  by (auto simp add: NeoPixels_brightness_setter_def i2c_write_def)

lemma brightness_setter_Inr:
  assumes "NeoPixels_brightness_setter fl v p dev = (Inr u, dev')"
  shows "dev' = dev\<lparr>wire := wire dev @ [Write [reg_num_brightness p, round_255 fl v]]\<rparr>"
  using assms by (auto simp add: NeoPixels_brightness_setter_def i2c_write_def split: if_splits)

lemma count_not_brightness_selector:
  assumes "0 \<le> c" "c \<le> 5"
  shows "CHANNEL_BASE_REG ! nat c OR 0x08 \<noteq> CHANNEL_BASE_REG ! nat c OR 0x0B"
proof -
  from assms have "c = 0 \<or> c = 1 \<or> c = 2 \<or> c = 3 \<or> c = 4 \<or> c = 5"
    by arith
  then show ?thesis
    by (auto simp add: CHANNEL_BASE_REG_def)
qed

text \<open>
  C6. The brightness getter writes the led-count selector (\<open>base[c] | 0x08\<close>, which
  is never the brightness selector \<open>base[c] | 0x0B\<close>), reads one byte and returns
  byte / 255 rounded to two decimals: a whole number of hundredths within 1/200 of
  the quotient. The setter raises \<^verbatim>\<open>ValueError\<close>, with the bus untouched, for every
  value that is neither \<^verbatim>\<open>float\<close> nor \<^verbatim>\<open>int\<close> or lies outside 0..1, however the
  platform rounds. For every number \<open>v\<close> in 0..1 it issues the single write
  \<open>[brightness selector, round(255 * v)]\<close>, where \<^verbatim>\<open>round(255 * v)\<close> is a byte: for a
  float \<open>x\<close> the integer nearest to the float product \<open>fl (255 * x)\<close>, a tie going to
  the even one, and for an integer \<open>i\<close> it is \<open>255 * i\<close>. This part needs the
  platform's rounding to be monotone and to leave 0 and 255 alone.
\<close>

theorem brightness_accessors:
  "(pending dev = byte # rest \<longrightarrow>
      NeoPixels_brightness p dev =
        (Inr (py_round2 (of_int byte / 255)),
         dev\<lparr>wire := wire dev @ [Write [reg_num_num_leds p], Read 1], pending := rest\<rparr>))
   \<and> (0 \<le> c \<and> c \<le> 5 \<and>
      NeoPixels_set_reg \<lparr>led_channel = PInt c, reg_num_num_leds = 0, reg_num_brightness = 0,
        reg_num_one_led_color = 0, reg_num_range_led_color = 0\<rparr> = Inr p \<longrightarrow>
      reg_num_num_leds p = CHANNEL_BASE_REG ! nat c OR 0x08
      \<and> reg_num_brightness p = CHANNEL_BASE_REG ! nat c OR 0x0B
      \<and> reg_num_num_leds p \<noteq> reg_num_brightness p)
   \<and> (\<exists>k::int. py_round2 x = of_int k / 100) \<and> \<bar>py_round2 x - x\<bar> \<le> 1 / 200
   \<and> ((\<not> isinstance_float v \<and> \<not> isinstance_int v) \<or> num_val v < 0 \<or> 1 < num_val v \<longrightarrow>
      NeoPixels_brightness_setter fl v p dev = (Inl ValueError, dev))
   \<and> (float_rounding fl
      \<and> (isinstance_float v \<or> isinstance_int v) \<and> 0 \<le> num_val v \<and> num_val v \<le> 1 \<longrightarrow>
      NeoPixels_brightness_setter fl v p dev =
        (Inr (), dev\<lparr>wire := wire dev @ [Write [reg_num_brightness p, round_255 fl v]]\<rparr>)
      \<and> 0 \<le> round_255 fl v \<and> round_255 fl v \<le> 255)
   \<and> round_255 fl (PFloat x) = py_round (fl (255 * x))
   \<and> round_255 fl (PInt i) = 255 * i
   \<and> \<bar>of_int (py_round y) - y\<bar> \<le> 1 / 2"
proof (intro conjI impI)
  assume "pending dev = byte # rest"
  then show "NeoPixels_brightness p dev =
        (Inr (py_round2 (of_int byte / 255)),
         dev\<lparr>wire := wire dev @ [Write [reg_num_num_leds p], Read 1], pending := rest\<rparr>)"
    by (rule brightness_getter)
next
  assume a: "0 \<le> c \<and> c \<le> 5 \<and>
      NeoPixels_set_reg \<lparr>led_channel = PInt c, reg_num_num_leds = 0, reg_num_brightness = 0,
        reg_num_one_led_color = 0, reg_num_range_led_color = 0\<rparr> = Inr p"
  then have p: "p = \<lparr>led_channel = PInt c,
                reg_num_num_leds = CHANNEL_BASE_REG ! nat c OR 0x08,
                reg_num_brightness = CHANNEL_BASE_REG ! nat c OR 0x0B,
                reg_num_one_led_color = CHANNEL_BASE_REG ! nat c OR 0x09,
                reg_num_range_led_color = CHANNEL_BASE_REG ! nat c OR 0x0A\<rparr>"
    using neopixels_regs [of "PInt c" 0 0 0 0] by simp
  show "reg_num_num_leds p = CHANNEL_BASE_REG ! nat c OR 0x08"
    by (simp add: p)
  show "reg_num_brightness p = CHANNEL_BASE_REG ! nat c OR 0x0B"
    by (simp add: p)
  show "reg_num_num_leds p \<noteq> reg_num_brightness p"
    using a count_not_brightness_selector [of c] by (simp add: p)
next
  show "\<exists>k::int. py_round2 x = of_int k / 100"
    by (rule py_round2_hundredths)
  show "\<bar>py_round2 x - x\<bar> \<le> 1 / 200"
    by (rule py_round2_near)
  show "\<bar>of_int (py_round y) - y\<bar> \<le> 1 / 2"
    by (rule py_round_near)
  show "round_255 fl (PFloat x) = py_round (fl (255 * x))"
    by (simp add: round_255_def)
  show "round_255 fl (PInt i) = 255 * i"
    by (simp add: round_255_def)
next
  assume "(\<not> isinstance_float v \<and> \<not> isinstance_int v) \<or> num_val v < 0 \<or> 1 < num_val v"
  then show "NeoPixels_brightness_setter fl v p dev = (Inl ValueError, dev)"
    by (rule brightness_setter_reject)
next
  assume a: "float_rounding fl
      \<and> (isinstance_float v \<or> isinstance_int v) \<and> 0 \<le> num_val v \<and> num_val v \<le> 1"
  then show "NeoPixels_brightness_setter fl v p dev =
        (Inr (), dev\<lparr>wire := wire dev @ [Write [reg_num_brightness p, round_255 fl v]]\<rparr>)"
    using brightness_setter_ok [of fl v p dev] by blast
  from a show "0 \<le> round_255 fl v" "round_255 fl v \<le> 255"
    using round_255_byte [of fl v] by blast+
qed

text \<open>
  On channel 0, with products rounded as binary64 rounds them between 1 and 2. The
  byte 128 reads as 0.5; a string and 1.1 are refused; the integer 1 is written as
  255 and 0.5 as 128. The float nearest to 1.5 / 255 is 847736400446211 / 2^57 (2^57 = 144115188075855872): its
  exact product with 255 lies just below 1.5, the float product is 1.5, and the
  byte written is 2.
\<close>

theorem brightness_accessors_witness:
  "NeoPixels_brightness strip0 \<lparr>wire = [], pending = [128]\<rparr> =
      (Inr (1 / 2), \<lparr>wire = [Write [0x48], Read 1], pending = []\<rparr>)
   \<and> reg_num_num_leds strip0 \<noteq> reg_num_brightness strip0
   \<and> NeoPixels_brightness_setter round_2p52 (PStr ''high'') strip0
        \<lparr>wire = [], pending = [128]\<rparr> =
      (Inl ValueError, \<lparr>wire = [], pending = [128]\<rparr>)
   \<and> NeoPixels_brightness_setter round_2p52 (PFloat (11 / 10)) strip0
        \<lparr>wire = [], pending = [128]\<rparr> =
      (Inl ValueError, \<lparr>wire = [], pending = [128]\<rparr>)
   \<and> NeoPixels_brightness_setter round_2p52 (PFloat (1 / 2)) strip0
        \<lparr>wire = [], pending = [128]\<rparr> =
      (Inr (), \<lparr>wire = [Write [0x4B, 128]], pending = [128]\<rparr>)
   \<and> NeoPixels_brightness_setter round_2p52 (PFloat (847736400446211 / 144115188075855872)) strip0
        \<lparr>wire = [], pending = [128]\<rparr> =
      (Inr (), \<lparr>wire = [Write [0x4B, 2]], pending = [128]\<rparr>)
   \<and> \<lfloor>255 * (847736400446211 / 144115188075855872) :: real\<rfloor> = 1
   \<and> (255 * (847736400446211 / 144115188075855872) :: real) < 3 / 2
   \<and> NeoPixels_brightness_setter round_2p52 (PInt 1) strip0 \<lparr>wire = [], pending = [128]\<rparr> =
      (Inr (), \<lparr>wire = [Write [0x4B, 255]], pending = [128]\<rparr>)"
proof -
  note w1 = brightness_accessors
      [where dev = "\<lparr>wire = [], pending = [128]\<rparr>" and byte = 128 and rest = "[]"
         and p = strip0 and c = 0 and x = 0 and v = "PStr ''high''" and fl = round_2p52
         and i = 0 and y = 0]
  note w2 = brightness_accessors
      [where dev = "\<lparr>wire = [], pending = [128]\<rparr>" and byte = 128 and rest = "[]"
         and p = strip0 and c = 0 and x = 0 and v = "PFloat (11 / 10)" and fl = round_2p52
         and i = 0 and y = 0]
  note w3 = brightness_accessors
      [where dev = "\<lparr>wire = [], pending = [128]\<rparr>" and byte = 128 and rest = "[]"
         and p = strip0 and c = 0 and x = 0 and v = "PFloat (1 / 2)" and fl = round_2p52
         and i = 0 and y = 0]
  note w4 = brightness_accessors
      [where dev = "\<lparr>wire = [], pending = [128]\<rparr>" and byte = 128 and rest = "[]"
         and p = strip0 and c = 0 and x = 0 and v = "PFloat (847736400446211 / 144115188075855872)" and fl = round_2p52
         and i = 0 and y = 0]
  note w5 = brightness_accessors
      [where dev = "\<lparr>wire = [], pending = [128]\<rparr>" and byte = 128 and rest = "[]"
         and p = strip0 and c = 0 and x = 0 and v = "PInt 1" and fl = round_2p52
         and i = 0 and y = 0]
  have r: "py_round2 (128 / 255) = 1 / 2"
    "round_255 round_2p52 (PFloat (1 / 2)) = 128"
    "round_255 round_2p52 (PFloat (847736400446211 / 144115188075855872)) = 2"
    "round_255 round_2p52 (PInt 1) = 255"
    by (simp_all add: py_round2_def py_round_def round_2p52_def round_255_def Let_def)
  from w1 w2 w3 w4 w5 show ?thesis
    by (simp add: strip0_set_reg round_2p52_rounding r) (simp add: strip0_def)
qed

section \<open>Constructing a strip\<close>

lemma count_setter_reject:
  "\<not> isinstance_int v \<or> int_of v < 0 \<or> 74 < int_of v \<Longrightarrow>
   NeoPixels_number_of_leds_setter v p dev = (Inl ValueError, dev)"
  by (auto simp add: NeoPixels_number_of_leds_setter_def MAX_NUM_OF_LED_def)

lemma count_setter_ok:
  "isinstance_int v \<and> 0 \<le> int_of v \<and> int_of v \<le> 74 \<Longrightarrow>
   NeoPixels_number_of_leds_setter v p dev =
     (Inr (), dev\<lparr>wire := wire dev @
        [Write [reg_num_num_leds p, int_of v mod 256, int_of v div 256 mod 256]]\<rparr>)"
  by (simp add: NeoPixels_number_of_leds_setter_def MAX_NUM_OF_LED_def i2c_write_def
      and_255_mod drop_bit_eq_div)

lemma init_bad_channel:
  "\<not> isinstance_int ch \<or> int_of ch < 0 \<or> 5 < int_of ch \<Longrightarrow>
   NeoPixels_init fl ch number brightness dev = (Inl ValueError, dev)"
  by (auto simp add: NeoPixels_init_def)

lemma init_good_channel:
  assumes "isinstance_int ch \<and> 0 \<le> int_of ch \<and> int_of ch \<le> 5"
  shows "NeoPixels_init fl ch number brightness dev =
     (case NeoPixels_number_of_leds_setter number
             \<lparr>led_channel = ch,
              reg_num_num_leds = CHANNEL_BASE_REG ! nat (int_of ch) OR 0x08,
              reg_num_brightness = CHANNEL_BASE_REG ! nat (int_of ch) OR 0x0B,
              reg_num_one_led_color = CHANNEL_BASE_REG ! nat (int_of ch) OR 0x09,
              reg_num_range_led_color = CHANNEL_BASE_REG ! nat (int_of ch) OR 0x0A\<rparr> dev of
        (Inl e, dev1) \<Rightarrow> (Inl e, dev1)
      | (Inr u, dev1) \<Rightarrow>
          (case NeoPixels_brightness_setter fl brightness
                  \<lparr>led_channel = ch,
                   reg_num_num_leds = CHANNEL_BASE_REG ! nat (int_of ch) OR 0x08,
                   reg_num_brightness = CHANNEL_BASE_REG ! nat (int_of ch) OR 0x0B,
                   reg_num_one_led_color = CHANNEL_BASE_REG ! nat (int_of ch) OR 0x09,
                   reg_num_range_led_color = CHANNEL_BASE_REG ! nat (int_of ch) OR 0x0A\<rparr> dev1 of
             (Inl e, dev2) \<Rightarrow> (Inl e, dev2)
           | (Inr u', dev2) \<Rightarrow>
               (Inr \<lparr>led_channel = ch,
                     reg_num_num_leds = CHANNEL_BASE_REG ! nat (int_of ch) OR 0x08,
                     reg_num_brightness = CHANNEL_BASE_REG ! nat (int_of ch) OR 0x0B,
                     reg_num_one_led_color = CHANNEL_BASE_REG ! nat (int_of ch) OR 0x09,
                     reg_num_range_led_color = CHANNEL_BASE_REG ! nat (int_of ch) OR 0x0A\<rparr>,
                dev2)))"
  using assms by (simp add: NeoPixels_init_def neopixels_regs)

text \<open>Whatever the arguments and the rounding, a construction that succeeds has
  written exactly the led count and then the brightness byte.\<close>

lemma init_success:
  assumes ok: "NeoPixels_init fl ch number brightness dev = (Inr self, dev')"
  shows "self = \<lparr>led_channel = ch,
              reg_num_num_leds = CHANNEL_BASE_REG ! nat (int_of ch) OR 0x08,
              reg_num_brightness = CHANNEL_BASE_REG ! nat (int_of ch) OR 0x0B,
              reg_num_one_led_color = CHANNEL_BASE_REG ! nat (int_of ch) OR 0x09,
              reg_num_range_led_color = CHANNEL_BASE_REG ! nat (int_of ch) OR 0x0A\<rparr>
     \<and> dev' = dev\<lparr>wire := wire dev @
           [Write [CHANNEL_BASE_REG ! nat (int_of ch) OR 0x08,
                   int_of number mod 256, int_of number div 256 mod 256],
            Write [CHANNEL_BASE_REG ! nat (int_of ch) OR 0x0B,
                   round_255 fl brightness]]\<rparr>"
proof -
  have ch: "isinstance_int ch \<and> 0 \<le> int_of ch \<and> int_of ch \<le> 5"
  proof (rule ccontr)
    assume "\<not> (isinstance_int ch \<and> 0 \<le> int_of ch \<and> int_of ch \<le> 5)"
    then have "NeoPixels_init fl ch number brightness dev = (Inl ValueError, dev)"
      using init_bad_channel [of ch fl number brightness dev] by auto
    with ok show False by simp
  qed
  have n: "isinstance_int number \<and> 0 \<le> int_of number \<and> int_of number \<le> 74"
  proof (rule ccontr)
    assume "\<not> (isinstance_int number \<and> 0 \<le> int_of number \<and> int_of number \<le> 74)"
    then have "\<not> isinstance_int number \<or> int_of number < 0 \<or> 74 < int_of number"
      by auto
    then have "NeoPixels_init fl ch number brightness dev = (Inl ValueError, dev)"
      by (simp add: init_good_channel [OF ch] count_setter_reject)
    with ok show False by simp
  qed
  from ok show ?thesis
    by (simp add: init_good_channel [OF ch] count_setter_ok [OF n]
        NeoPixels_brightness_setter_def i2c_write_def split: if_splits)
qed

text \<open>
  C9. \<^verbatim>\<open>NeoPixels.__init__\<close> touches the bus. Every construction that succeeds has
  issued exactly two writes, the led count and then the brightness, and returns the
  strip with the four selectors of its channel; with a valid channel, led count and
  brightness (and a rounding that is monotone and leaves 0 and 255 alone) the
  construction does succeed. It raises \<^verbatim>\<open>ValueError\<close> whenever the led count is not an
  \<^verbatim>\<open>int\<close> in 0..74 or the brightness is not a number in 0..1, whatever the channel: an
  invalid channel is refused first, with the bus untouched; an invalid led count is
  refused by its setter, with the bus untouched; an invalid brightness is refused by
  its setter after the led count has already been written.
\<close>

theorem neopixels_init_writes:
  "(NeoPixels_init fl ch number brightness dev = (Inr self, dev') \<longrightarrow>
      self = \<lparr>led_channel = ch,
              reg_num_num_leds = CHANNEL_BASE_REG ! nat (int_of ch) OR 0x08,
              reg_num_brightness = CHANNEL_BASE_REG ! nat (int_of ch) OR 0x0B,
              reg_num_one_led_color = CHANNEL_BASE_REG ! nat (int_of ch) OR 0x09,
              reg_num_range_led_color = CHANNEL_BASE_REG ! nat (int_of ch) OR 0x0A\<rparr>
      \<and> dev' = dev\<lparr>wire := wire dev @
           [Write [CHANNEL_BASE_REG ! nat (int_of ch) OR 0x08,
                   int_of number mod 256, int_of number div 256 mod 256],
            Write [CHANNEL_BASE_REG ! nat (int_of ch) OR 0x0B,
                   round_255 fl brightness]]\<rparr>)
   \<and> (float_rounding fl
      \<and> isinstance_int ch \<and> 0 \<le> int_of ch \<and> int_of ch \<le> 5
      \<and> isinstance_int number \<and> 0 \<le> int_of number \<and> int_of number \<le> 74
      \<and> (isinstance_float brightness \<or> isinstance_int brightness)
      \<and> 0 \<le> num_val brightness \<and> num_val brightness \<le> 1 \<longrightarrow>
      NeoPixels_init fl ch number brightness dev =
        (Inr \<lparr>led_channel = ch,
              reg_num_num_leds = CHANNEL_BASE_REG ! nat (int_of ch) OR 0x08,
              reg_num_brightness = CHANNEL_BASE_REG ! nat (int_of ch) OR 0x0B,
              reg_num_one_led_color = CHANNEL_BASE_REG ! nat (int_of ch) OR 0x09,
              reg_num_range_led_color = CHANNEL_BASE_REG ! nat (int_of ch) OR 0x0A\<rparr>,
         dev\<lparr>wire := wire dev @
           [Write [CHANNEL_BASE_REG ! nat (int_of ch) OR 0x08,
                   int_of number mod 256, int_of number div 256 mod 256],
            Write [CHANNEL_BASE_REG ! nat (int_of ch) OR 0x0B,
                   round_255 fl brightness]]\<rparr>))
   \<and> (\<not> isinstance_int number \<or> int_of number < 0 \<or> 74 < int_of number
      \<or> (\<not> isinstance_float brightness \<and> \<not> isinstance_int brightness)
      \<or> num_val brightness < 0 \<or> 1 < num_val brightness \<longrightarrow>
      fst (NeoPixels_init fl ch number brightness dev) = Inl ValueError)
   \<and> (\<not> isinstance_int ch \<or> int_of ch < 0 \<or> 5 < int_of ch \<longrightarrow>
      NeoPixels_init fl ch number brightness dev = (Inl ValueError, dev))
   \<and> (isinstance_int ch \<and> 0 \<le> int_of ch \<and> int_of ch \<le> 5
      \<and> (\<not> isinstance_int number \<or> int_of number < 0 \<or> 74 < int_of number) \<longrightarrow>
      NeoPixels_init fl ch number brightness dev = (Inl ValueError, dev))
   \<and> (isinstance_int ch \<and> 0 \<le> int_of ch \<and> int_of ch \<le> 5
      \<and> isinstance_int number \<and> 0 \<le> int_of number \<and> int_of number \<le> 74
      \<and> ((\<not> isinstance_float brightness \<and> \<not> isinstance_int brightness)
          \<or> num_val brightness < 0 \<or> 1 < num_val brightness) \<longrightarrow>
      NeoPixels_init fl ch number brightness dev =
        (Inl ValueError,
         dev\<lparr>wire := wire dev @
           [Write [CHANNEL_BASE_REG ! nat (int_of ch) OR 0x08,
                   int_of number mod 256, int_of number div 256 mod 256]]\<rparr>))"
proof -
  have succ: "NeoPixels_init fl ch number brightness dev = (Inr self, dev') \<longrightarrow>
      self = \<lparr>led_channel = ch,
              reg_num_num_leds = CHANNEL_BASE_REG ! nat (int_of ch) OR 0x08,
              reg_num_brightness = CHANNEL_BASE_REG ! nat (int_of ch) OR 0x0B,
              reg_num_one_led_color = CHANNEL_BASE_REG ! nat (int_of ch) OR 0x09,
              reg_num_range_led_color = CHANNEL_BASE_REG ! nat (int_of ch) OR 0x0A\<rparr>
      \<and> dev' = dev\<lparr>wire := wire dev @
           [Write [CHANNEL_BASE_REG ! nat (int_of ch) OR 0x08,
                   int_of number mod 256, int_of number div 256 mod 256],
            Write [CHANNEL_BASE_REG ! nat (int_of ch) OR 0x0B,
                   round_255 fl brightness]]\<rparr>"
    using init_success [of fl ch number brightness dev self dev'] by blast
  have ok: "float_rounding fl
      \<and> isinstance_int ch \<and> 0 \<le> int_of ch \<and> int_of ch \<le> 5
      \<and> isinstance_int number \<and> 0 \<le> int_of number \<and> int_of number \<le> 74
      \<and> (isinstance_float brightness \<or> isinstance_int brightness)
      \<and> 0 \<le> num_val brightness \<and> num_val brightness \<le> 1 \<longrightarrow>
      NeoPixels_init fl ch number brightness dev =
        (Inr \<lparr>led_channel = ch,
              reg_num_num_leds = CHANNEL_BASE_REG ! nat (int_of ch) OR 0x08,
              reg_num_brightness = CHANNEL_BASE_REG ! nat (int_of ch) OR 0x0B,
              reg_num_one_led_color = CHANNEL_BASE_REG ! nat (int_of ch) OR 0x09,
              reg_num_range_led_color = CHANNEL_BASE_REG ! nat (int_of ch) OR 0x0A\<rparr>,
         dev\<lparr>wire := wire dev @
           [Write [CHANNEL_BASE_REG ! nat (int_of ch) OR 0x08,
                   int_of number mod 256, int_of number div 256 mod 256],
            Write [CHANNEL_BASE_REG ! nat (int_of ch) OR 0x0B,
                   round_255 fl brightness]]\<rparr>)"
    by (simp add: init_good_channel count_setter_ok brightness_setter_ok)
  have badch: "\<not> isinstance_int ch \<or> int_of ch < 0 \<or> 5 < int_of ch \<longrightarrow>
      NeoPixels_init fl ch number brightness dev = (Inl ValueError, dev)"
    using init_bad_channel by blast
  have badn: "isinstance_int ch \<and> 0 \<le> int_of ch \<and> int_of ch \<le> 5
      \<and> (\<not> isinstance_int number \<or> int_of number < 0 \<or> 74 < int_of number) \<longrightarrow>
      NeoPixels_init fl ch number brightness dev = (Inl ValueError, dev)"
    by (auto simp add: init_good_channel count_setter_reject)
  have badb: "isinstance_int ch \<and> 0 \<le> int_of ch \<and> int_of ch \<le> 5
      \<and> isinstance_int number \<and> 0 \<le> int_of number \<and> int_of number \<le> 74
      \<and> ((\<not> isinstance_float brightness \<and> \<not> isinstance_int brightness)
          \<or> num_val brightness < 0 \<or> 1 < num_val brightness) \<longrightarrow>
      NeoPixels_init fl ch number brightness dev =
        (Inl ValueError,
         dev\<lparr>wire := wire dev @
           [Write [CHANNEL_BASE_REG ! nat (int_of ch) OR 0x08,
                   int_of number mod 256, int_of number div 256 mod 256]]\<rparr>)"
    by (auto simp add: init_good_channel count_setter_ok brightness_setter_reject)
  have any: "\<not> isinstance_int number \<or> int_of number < 0 \<or> 74 < int_of number
      \<or> (\<not> isinstance_float brightness \<and> \<not> isinstance_int brightness)
      \<or> num_val brightness < 0 \<or> 1 < num_val brightness \<longrightarrow>
      fst (NeoPixels_init fl ch number brightness dev) = Inl ValueError"
  proof (cases "isinstance_int ch \<and> 0 \<le> int_of ch \<and> int_of ch \<le> 5")
    case False
    then have "NeoPixels_init fl ch number brightness dev = (Inl ValueError, dev)"
      using init_bad_channel [of ch fl number brightness dev] by auto
    then show ?thesis by simp
  next
    case True
    show ?thesis
    proof (cases "isinstance_int number \<and> 0 \<le> int_of number \<and> int_of number \<le> 74")
      case False
      with True badn have "NeoPixels_init fl ch number brightness dev = (Inl ValueError, dev)"
        by auto
      then show ?thesis by simp
    next
      case n: True
      show ?thesis
      proof
        assume "\<not> isinstance_int number \<or> int_of number < 0 \<or> 74 < int_of number
          \<or> (\<not> isinstance_float brightness \<and> \<not> isinstance_int brightness)
          \<or> num_val brightness < 0 \<or> 1 < num_val brightness"
        with n have "(\<not> isinstance_float brightness \<and> \<not> isinstance_int brightness)
          \<or> num_val brightness < 0 \<or> 1 < num_val brightness"
          by auto
        with True n badb show "fst (NeoPixels_init fl ch number brightness dev) = Inl ValueError"
          by simp
      qed
    qed
  qed
  from succ ok any badch badn badb show ?thesis
    by (intro conjI)
qed

text \<open>
  \<^verbatim>\<open>NeoPixels(hub, 0, 10)\<close> with the default brightness 0.5, then with the float
  nearest to 1.5 / 255, whose byte is 2, and four refusals; products are rounded as
  binary64 rounds them between 1 and 2.
\<close>

theorem neopixels_init_writes_witness:
  "NeoPixels_init round_2p52 (PInt 0) (PInt 10) (PFloat (1 / 2)) \<lparr>wire = [], pending = []\<rparr> =
      (Inr strip0, \<lparr>wire = [Write [0x48, 10, 0], Write [0x4B, 128]], pending = []\<rparr>)
   \<and> NeoPixels_init round_2p52 (PInt 0) (PInt 10)
        (PFloat (847736400446211 / 144115188075855872)) \<lparr>wire = [], pending = []\<rparr> =
      (Inr strip0, \<lparr>wire = [Write [0x48, 10, 0], Write [0x4B, 2]], pending = []\<rparr>)
   \<and> NeoPixels_init round_2p52 (PInt 6) (PInt 10) (PFloat (1 / 2))
        \<lparr>wire = [], pending = []\<rparr> =
      (Inl ValueError, \<lparr>wire = [], pending = []\<rparr>)
   \<and> NeoPixels_init round_2p52 (PInt 0) (PInt 75) (PFloat (1 / 2))
        \<lparr>wire = [], pending = []\<rparr> =
      (Inl ValueError, \<lparr>wire = [], pending = []\<rparr>)
   \<and> NeoPixels_init round_2p52 (PInt 0) (PInt 10) (PFloat 2) \<lparr>wire = [], pending = []\<rparr> =
      (Inl ValueError, \<lparr>wire = [Write [0x48, 10, 0]], pending = []\<rparr>)
   \<and> fst (NeoPixels_init round_2p52 (PInt 0) (PInt 10) PNone \<lparr>wire = [], pending = []\<rparr>) =
      Inl ValueError"
proof -
  have r: "round_255 round_2p52 (PFloat (1 / 2)) = 128"
    "round_255 round_2p52 (PFloat (847736400446211 / 144115188075855872)) = 2"
    by (simp_all add: py_round_def round_2p52_def round_255_def Let_def)
  note i = neopixels_init_writes [where fl = round_2p52 and dev = "\<lparr>wire = [], pending = []\<rparr>"
      and self = strip0
      and dev' = "\<lparr>wire = [Write [0x48, 10, 0], Write [0x4B, 128]], pending = []\<rparr>"]
  show ?thesis
    using i [of "PInt 0" "PInt 10" "PFloat (1 / 2)"]
      i [of "PInt 0" "PInt 10" "PFloat (847736400446211 / 144115188075855872)"]
      i [of "PInt 6" "PInt 10" "PFloat (1 / 2)"]
      i [of "PInt 0" "PInt 75" "PFloat (1 / 2)"]
      i [of "PInt 0" "PInt 10" "PFloat 2"]
      i [of "PInt 0" "PInt 10" PNone]
    by (simp add: r round_2p52_rounding strip0_def CHANNEL_BASE_REG_def)
qed



section \<open>Filling the strip\<close>

lemma fill_after_read:
  assumes "pending dev = n # rest"
  shows "NeoPixels_fill color p dev =
     NeoPixels_setitem (PSlice (PInt 0) (PInt n) PNone) color p
       (dev\<lparr>wire := wire dev @ [Write [reg_num_num_leds p], Read 1], pending := rest\<rparr>)"
  using assms by (simp add: NeoPixels_fill_def NeoPixels_number_of_leds_def read_reg_one)

lemma fill_no_answer:
  assumes "pending dev = []"
  shows "NeoPixels_fill color p dev =
     (Inl OSError, dev\<lparr>wire := wire dev @ [Write [reg_num_num_leds p]]\<rparr>)"
  using assms
  by (simp add: NeoPixels_fill_def NeoPixels_number_of_leds_def read_reg_def i2c_readinto_def
      i2c_write_def)

text \<open>
  C8, as the code has it. \<^verbatim>\<open>fill(color)\<close> is the slice assignment
  \<^verbatim>\<open>self[0:n] = color\<close> run after a led-count read that returned \<open>n\<close>. So it first
  issues the count read (selector write, one-byte read); then, when \<open>n\<close> is in 1..74,
  exactly one range write starting at index 0 with count \<open>n\<close>; when \<open>n\<close> is 0, nothing
  more; and when \<open>n\<close> exceeds 74 the range check of the slice assignment raises
  \<^verbatim>\<open>ValueError\<close> and nothing more is written.
\<close>

theorem fill_reads_then_writes:
  "(pending dev = n # rest \<longrightarrow>
      NeoPixels_fill color p dev =
        NeoPixels_setitem (PSlice (PInt 0) (PInt n) PNone) color p
          (dev\<lparr>wire := wire dev @ [Write [reg_num_num_leds p], Read 1], pending := rest\<rparr>))
   \<and> (pending dev = n # rest \<and> 0 < n \<and> n \<le> 74 \<and> color_bytes color = Inr [r, g, b] \<longrightarrow>
      NeoPixels_fill color p dev =
        (Inr (), dev\<lparr>wire := wire dev @
           [Write [reg_num_num_leds p], Read 1,
            Write [reg_num_range_led_color p, 0, 0, n, 0, r, g, b]],
           pending := rest\<rparr>))
   \<and> (pending dev = 0 # rest \<longrightarrow>
      NeoPixels_fill color p dev =
        (Inr (), dev\<lparr>wire := wire dev @ [Write [reg_num_num_leds p], Read 1],
                    pending := rest\<rparr>))
   \<and> (pending dev = n # rest \<and> 74 < n \<longrightarrow>
      NeoPixels_fill color p dev =
        (Inl ValueError, dev\<lparr>wire := wire dev @ [Write [reg_num_num_leds p], Read 1],
                            pending := rest\<rparr>))"
proof (intro conjI impI)
  assume "pending dev = n # rest"
  then show "NeoPixels_fill color p dev =
        NeoPixels_setitem (PSlice (PInt 0) (PInt n) PNone) color p
          (dev\<lparr>wire := wire dev @ [Write [reg_num_num_leds p], Read 1], pending := rest\<rparr>)"
    by (rule fill_after_read)
next
  assume a: "pending dev = n # rest \<and> 0 < n \<and> n \<le> 74 \<and> color_bytes color = Inr [r, g, b]"
  then have "n mod 256 = n" "n div 256 = 0"
    by simp_all
  with a show "NeoPixels_fill color p dev =
        (Inr (), dev\<lparr>wire := wire dev @
           [Write [reg_num_num_leds p], Read 1,
            Write [reg_num_range_led_color p, 0, 0, n, 0, r, g, b]],
           pending := rest\<rparr>)"
    using setitem_slice_ok [of 0 n color "[r, g, b]" PNone p]
    by (simp add: fill_after_read)
next
  assume "pending dev = 0 # rest"
  then show "NeoPixels_fill color p dev =
        (Inr (), dev\<lparr>wire := wire dev @ [Write [reg_num_num_leds p], Read 1],
                    pending := rest\<rparr>)"
    using setitem_slice_empty [of 0 PNone color p] by (simp add: fill_after_read)
next
  assume "pending dev = n # rest \<and> 74 < n"
  then show "NeoPixels_fill color p dev =
        (Inl ValueError, dev\<lparr>wire := wire dev @ [Write [reg_num_num_leds p], Read 1],
                            pending := rest\<rparr>)"
    using setitem_slice_reject [of 0 n PNone color p] by (simp add: fill_after_read)
qed

text \<open>A hub reporting 10 leds gets the range write with start 0 and count 10; hubs
  reporting 0 and 200 get none.\<close>

theorem fill_reads_then_writes_witness:
  "NeoPixels_fill (PInt 0xFFFF00) strip0 \<lparr>wire = [], pending = [10]\<rparr> =
     (Inr (), \<lparr>wire = [Write [0x48], Read 1, Write [0x4A, 0, 0, 10, 0, 0xFF, 0xFF, 0x00]],
              pending = []\<rparr>)
   \<and> NeoPixels_fill (PInt 0xFFFF00) strip0 \<lparr>wire = [], pending = [0]\<rparr> =
     (Inr (), \<lparr>wire = [Write [0x48], Read 1], pending = []\<rparr>)
   \<and> NeoPixels_fill (PInt 0xFFFF00) strip0 \<lparr>wire = [], pending = [200]\<rparr> =
     (Inl ValueError, \<lparr>wire = [Write [0x48], Read 1], pending = []\<rparr>)"
proof -
  have c: "color_bytes (PInt 0xFFFF00) = Inr [0xFF, 0xFF, 0x00]"
    by (simp add: color_bytes_int)
  have "pending \<lparr>wire = [], pending = [10]\<rparr> = [10] \<and> (0::int) < 10 \<and> (10::int) \<le> 74
      \<and> color_bytes (PInt 0xFFFF00) = Inr [0xFF, 0xFF, 0x00]"
    using c by simp
  with fill_reads_then_writes
      [of "\<lparr>wire = [], pending = [10]\<rparr>" 10 "[]" "PInt 0xFFFF00" strip0 255 255 0]
  have w1: "NeoPixels_fill (PInt 0xFFFF00) strip0 \<lparr>wire = [], pending = [10]\<rparr> =
     (Inr (), \<lparr>wire = [], pending = [10]\<rparr>\<lparr>wire := wire \<lparr>wire = [], pending = [10]\<rparr> @
           [Write [reg_num_num_leds strip0], Read 1,
            Write [reg_num_range_led_color strip0, 0, 0, 10, 0, 255, 255, 0]],
           pending := []\<rparr>)"
    by blast
  have "pending \<lparr>wire = [], pending = [0::int]\<rparr> = [0]"
    by simp
  with fill_reads_then_writes
      [of "\<lparr>wire = [], pending = [0]\<rparr>" 0 "[]" "PInt 0xFFFF00" strip0 255 255 0]
  have w2: "NeoPixels_fill (PInt 0xFFFF00) strip0 \<lparr>wire = [], pending = [0]\<rparr> =
     (Inr (), \<lparr>wire = [], pending = [0]\<rparr>\<lparr>wire := wire \<lparr>wire = [], pending = [0]\<rparr> @
           [Write [reg_num_num_leds strip0], Read 1], pending := []\<rparr>)"
    by blast
  have "pending \<lparr>wire = [], pending = [200::int]\<rparr> = [200] \<and> (74::int) < 200"
    by simp
  with fill_reads_then_writes
      [of "\<lparr>wire = [], pending = [200]\<rparr>" 200 "[]" "PInt 0xFFFF00" strip0 255 255 0]
  have w3: "NeoPixels_fill (PInt 0xFFFF00) strip0 \<lparr>wire = [], pending = [200]\<rparr> =
     (Inl ValueError,
      \<lparr>wire = [], pending = [200]\<rparr>\<lparr>wire := wire \<lparr>wire = [], pending = [200]\<rparr> @
           [Write [reg_num_num_leds strip0], Read 1], pending := []\<rparr>)"
    by blast
  from w1 w2 w3 show ?thesis
    by (simp add: strip0_def)
qed

text \<open>
  The claim promises the range write for every non-zero count. The count is one
  byte read from the hub; when it is 75, \<^verbatim>\<open>fill\<close> raises \<^verbatim>\<open>ValueError\<close> after the
  read and the range write with count 75 is not issued.
\<close>

theorem fill_count_above_74_counterexample:
  "NeoPixels_fill (PInt 0xFFFF00) strip0 \<lparr>wire = [], pending = [75]\<rparr> =
     (Inl ValueError, \<lparr>wire = [Write [0x48], Read 1], pending = []\<rparr>)
   \<and> NeoPixels_fill (PInt 0xFFFF00) strip0 \<lparr>wire = [], pending = [75]\<rparr> \<noteq>
     (Inr (), \<lparr>wire = [Write [0x48], Read 1, Write [0x4A, 0, 0, 75, 0, 0xFF, 0xFF, 0x00]],
              pending = []\<rparr>)"
  by (simp add: NeoPixels_fill_def NeoPixels_number_of_leds_def read_reg_one
      setitem_slice_def MAX_NUM_OF_LED_def strip0_def)

section \<open>Selectors on the wire\<close>

lemma getters_selectors:
  "selectors (wire (snd (PbHubDigitalInput_value e dev))) = selectors (wire dev) @ [reg_num e]"
  "selectors (wire (snd (PbHubDigitalOutput_value e dev))) = selectors (wire dev) @ [reg_num e]"
  "selectors (wire (snd (PbHubAnalogInput_value e dev))) = selectors (wire dev) @ [reg_num e]"
  "selectors (wire (snd (PbHubPwmOutput_value e dev))) = selectors (wire dev) @ [reg_num e]"
  "selectors (wire (snd (PbHubServo_angle sv dev))) = selectors (wire dev) @ [reg_num_angle sv]"
  "selectors (wire (snd (PbHubServo_pulse sv dev))) = selectors (wire dev) @ [reg_num_pulse sv]"
  "selectors (wire (snd (NeoPixels_number_of_leds p dev))) =
     selectors (wire dev) @ [reg_num_num_leds p]"
  by (simp_all add: PbHubDigitalInput_value_def PbHubDigitalOutput_value_def
      PbHubAnalogInput_value_def PbHubPwmOutput_value_def PbHubServo_angle_def
      PbHubServo_pulse_def NeoPixels_number_of_leds_def getter_selectors)

lemma setters_write:
  "PbHubDigitalOutput_value_setter v e dev =
     (Inr (), dev\<lparr>wire := wire dev @ [Write [reg_num e, if truthy v then 1 else 0]]\<rparr>)"
  "isinstance_int pw \<and> 0 \<le> int_of pw \<and> int_of pw \<le> 255 \<Longrightarrow>
   PbHubPwmOutput_value_setter pw e dev =
     (Inr (), dev\<lparr>wire := wire dev @ [Write [reg_num e, int_of pw mod 256]]\<rparr>)"
  "isinstance_int an \<and> 0 \<le> int_of an \<and> int_of an \<le> 180 \<Longrightarrow>
   PbHubServo_angle_setter an sv dev =
     (Inr (), dev\<lparr>wire := wire dev @ [Write [reg_num_angle sv, int_of an]]\<rparr>)"
  "isinstance_int pu \<and> 500 \<le> int_of pu \<and> int_of pu \<le> 2500 \<Longrightarrow>
   PbHubServo_pulse_setter pu sv dev =
     (Inr (), dev\<lparr>wire := wire dev @
        [Write [reg_num_pulse sv, int_of pu mod 256, int_of pu div 256 mod 256]]\<rparr>)"
  by (simp_all add: PbHubDigitalOutput_value_setter_def PbHubPwmOutput_value_setter_def
      PbHubServo_angle_setter_def PbHubServo_pulse_setter_def i2c_write_def and_255_mod)
    (simp add: drop_bit_eq_div)

text \<open>
  C4 gives every sub-function its selector on the wire, the LED brightness
  \<open>base | 0x0B\<close>. Reading the brightness does not send it: the getter writes the led
  count selector and returns count / 255. On channel 0, with the hub answering 10,
  the strip built by \<^verbatim>\<open>_set_reg\<close> has the brightness selector 0x4B, the setter sends
  0x4B, and the getter sends 0x48 and returns 0.04.
\<close>

theorem brightness_read_sends_count_selector:
  "NeoPixels_set_reg \<lparr>led_channel = PInt 0, reg_num_num_leds = 0, reg_num_brightness = 0,
       reg_num_one_led_color = 0, reg_num_range_led_color = 0\<rparr> = Inr strip0
   \<and> reg_num_brightness strip0 = CHANNEL_BASE_REG ! 0 OR 0x0B
   \<and> reg_num_brightness strip0 = 0x4B
   \<and> NeoPixels_brightness_setter round_2p52 (PInt 1) strip0 \<lparr>wire = [], pending = [10]\<rparr> =
       (Inr (), \<lparr>wire = [Write [0x4B, 255]], pending = [10]\<rparr>)
   \<and> NeoPixels_brightness strip0 \<lparr>wire = [], pending = [10]\<rparr> =
       (Inr (1 / 25), \<lparr>wire = [Write [0x48], Read 1], pending = []\<rparr>)
   \<and> NeoPixels_number_of_leds strip0 \<lparr>wire = [], pending = [10]\<rparr> =
       (Inr 10, \<lparr>wire = [Write [0x48], Read 1], pending = []\<rparr>)"
proof -
  have "py_round2 (10 / 255) = 1 / 25"
    by (simp add: py_round2_def py_round_def Let_def)
  then show ?thesis
    by (simp add: strip0_set_reg NeoPixels_brightness_def NeoPixels_number_of_leds_def
        read_reg_one NeoPixels_brightness_setter_def round_255_def i2c_write_def)
      (simp add: strip0_def CHANNEL_BASE_REG_def)
qed

text \<open>
  The rest of the register map reaches the wire as cached. For every channel \<open>c\<close> in 0..5 the constructors cache
  \<open>base[c] | code\<close>, with the base table exactly \<open>[0x40, 0x50, 0x60, 0x70, 0x80, 0xA0]\<close>
  and the codes: DigitalInput 0x04/0x05, DigitalOutput 0x00/0x01, AnalogInput 0x06,
  PwmOutput 0x02/0x03, Servo angle 0x0C/0x0D, Servo pulse 0x0E/0x0F (io 0 / io 1), LED
  count 0x08, single pixel 0x09, range 0x0A, brightness 0x0B. Every getter but the
  brightness getter sends its cached selector, whatever the hub answers, and every
  setter, given a valid value, issues the one write that starts with its cached
  selector.
\<close>

theorem register_selectors:
  assumes "0 \<le> c" and "c \<le> 5"
  shows
  "CHANNEL_BASE_REG = [0x40, 0x50, 0x60, 0x70, 0x80, 0xA0]
   \<and> PbHubDigitalInput_init (PInt c) (PInt 0) =
       Inr \<lparr>channel = PInt c, io = PInt 0, reg_num = CHANNEL_BASE_REG ! nat c OR 0x04\<rparr>
   \<and> PbHubDigitalInput_init (PInt c) (PInt 1) =
       Inr \<lparr>channel = PInt c, io = PInt 1, reg_num = CHANNEL_BASE_REG ! nat c OR 0x05\<rparr>
   \<and> PbHubDigitalOutput_init (PInt c) (PInt 0) =
       Inr \<lparr>channel = PInt c, io = PInt 0, reg_num = CHANNEL_BASE_REG ! nat c OR 0x00\<rparr>
   \<and> PbHubDigitalOutput_init (PInt c) (PInt 1) =
       Inr \<lparr>channel = PInt c, io = PInt 1, reg_num = CHANNEL_BASE_REG ! nat c OR 0x01\<rparr>
   \<and> PbHubAnalogInput_init (PInt c) =
       Inr \<lparr>channel = PInt c, io = PInt 0, reg_num = CHANNEL_BASE_REG ! nat c OR 0x06\<rparr>
   \<and> PbHubPwmOutput_init (PInt c) (PInt 0) =
       Inr \<lparr>channel = PInt c, io = PInt 0, reg_num = CHANNEL_BASE_REG ! nat c OR 0x02\<rparr>
   \<and> PbHubPwmOutput_init (PInt c) (PInt 1) =
       Inr \<lparr>channel = PInt c, io = PInt 1, reg_num = CHANNEL_BASE_REG ! nat c OR 0x03\<rparr>
   \<and> PbHubServo_init (PInt c) (PInt 0) =
       Inr \<lparr>channel = PInt c, io = PInt 0,
            reg_num_angle = CHANNEL_BASE_REG ! nat c OR 0x0C,
            reg_num_pulse = CHANNEL_BASE_REG ! nat c OR 0x0E\<rparr>
   \<and> PbHubServo_init (PInt c) (PInt 1) =
       Inr \<lparr>channel = PInt c, io = PInt 1,
            reg_num_angle = CHANNEL_BASE_REG ! nat c OR 0x0D,
            reg_num_pulse = CHANNEL_BASE_REG ! nat c OR 0x0F\<rparr>
   \<and> NeoPixels_set_reg \<lparr>led_channel = PInt c, reg_num_num_leds = 0, reg_num_brightness = 0,
         reg_num_one_led_color = 0, reg_num_range_led_color = 0\<rparr> =
       Inr \<lparr>led_channel = PInt c,
            reg_num_num_leds = CHANNEL_BASE_REG ! nat c OR 0x08,
            reg_num_brightness = CHANNEL_BASE_REG ! nat c OR 0x0B,
            reg_num_one_led_color = CHANNEL_BASE_REG ! nat c OR 0x09,
            reg_num_range_led_color = CHANNEL_BASE_REG ! nat c OR 0x0A\<rparr>
   \<and> selectors (wire (snd (PbHubDigitalInput_value e dev))) = selectors (wire dev) @ [reg_num e]
   \<and> selectors (wire (snd (PbHubDigitalOutput_value e dev))) = selectors (wire dev) @ [reg_num e]
   \<and> selectors (wire (snd (PbHubAnalogInput_value e dev))) = selectors (wire dev) @ [reg_num e]
   \<and> selectors (wire (snd (PbHubPwmOutput_value e dev))) = selectors (wire dev) @ [reg_num e]
   \<and> selectors (wire (snd (PbHubServo_angle sv dev))) =
       selectors (wire dev) @ [reg_num_angle sv]
   \<and> selectors (wire (snd (PbHubServo_pulse sv dev))) =
       selectors (wire dev) @ [reg_num_pulse sv]
   \<and> selectors (wire (snd (NeoPixels_number_of_leds p dev))) =
       selectors (wire dev) @ [reg_num_num_leds p]
   \<and> PbHubDigitalOutput_value_setter v e dev =
       (Inr (), dev\<lparr>wire := wire dev @ [Write [reg_num e, if truthy v then 1 else 0]]\<rparr>)
   \<and> (isinstance_int pw \<and> 0 \<le> int_of pw \<and> int_of pw \<le> 255 \<longrightarrow>
       PbHubPwmOutput_value_setter pw e dev =
         (Inr (), dev\<lparr>wire := wire dev @ [Write [reg_num e, int_of pw mod 256]]\<rparr>))
   \<and> (isinstance_int an \<and> 0 \<le> int_of an \<and> int_of an \<le> 180 \<longrightarrow>
       PbHubServo_angle_setter an sv dev =
         (Inr (), dev\<lparr>wire := wire dev @ [Write [reg_num_angle sv, int_of an]]\<rparr>))
   \<and> (isinstance_int pu \<and> 500 \<le> int_of pu \<and> int_of pu \<le> 2500 \<longrightarrow>
       PbHubServo_pulse_setter pu sv dev =
         (Inr (), dev\<lparr>wire := wire dev @
            [Write [reg_num_pulse sv, int_of pu mod 256, int_of pu div 256 mod 256]]\<rparr>))
   \<and> (isinstance_int n \<and> 0 \<le> int_of n \<and> int_of n \<le> 74 \<longrightarrow>
       NeoPixels_number_of_leds_setter n p dev =
         (Inr (), dev\<lparr>wire := wire dev @
            [Write [reg_num_num_leds p, int_of n mod 256, int_of n div 256 mod 256]]\<rparr>))
   \<and> (float_rounding fl
       \<and> (isinstance_float br \<or> isinstance_int br) \<and> 0 \<le> num_val br \<and> num_val br \<le> 1 \<longrightarrow>
       NeoPixels_brightness_setter fl br p dev =
         (Inr (), dev\<lparr>wire := wire dev @ [Write [reg_num_brightness p, round_255 fl br]]\<rparr>))
   \<and> (isinstance_int index \<and> 0 \<le> int_of index \<and> int_of index \<le> 74
       \<and> color_bytes color = Inr [r, g, b] \<longrightarrow>
       NeoPixels_setitem index color p dev =
         (Inr (), dev\<lparr>wire := wire dev @
            [Write [reg_num_one_led_color p, int_of index mod 256,
                    int_of index div 256 mod 256, r, g, b]]\<rparr>))
   \<and> (0 \<le> s \<and> s < t \<and> t \<le> 74 \<and> color_bytes color = Inr [r, g, b] \<longrightarrow>
       NeoPixels_setitem (PSlice (PInt s) (PInt t) st) color p dev =
         (Inr (), dev\<lparr>wire := wire dev @
            [Write [reg_num_range_led_color p, s mod 256, s div 256 mod 256,
                    (t - s) mod 256, (t - s) div 256 mod 256, r, g, b]]\<rparr>))"
proof -
  have pix: "isinstance_int index \<and> 0 \<le> int_of index \<and> int_of index \<le> 74
       \<and> color_bytes color = Inr [r, g, b] \<longrightarrow>
       NeoPixels_setitem index color p dev =
         (Inr (), dev\<lparr>wire := wire dev @
            [Write [reg_num_one_led_color p, int_of index mod 256,
                    int_of index div 256 mod 256, r, g, b]]\<rparr>)"
    using setitem_index_ok [of index color "[r, g, b]" p dev] by simp
  have rng: "0 \<le> s \<and> s < t \<and> t \<le> 74 \<and> color_bytes color = Inr [r, g, b] \<longrightarrow>
       NeoPixels_setitem (PSlice (PInt s) (PInt t) st) color p dev =
         (Inr (), dev\<lparr>wire := wire dev @
            [Write [reg_num_range_led_color p, s mod 256, s div 256 mod 256,
                    (t - s) mod 256, (t - s) div 256 mod 256, r, g, b]]\<rparr>)"
    using setitem_slice_ok [of s t color "[r, g, b]" st p dev] by simp
  have cnt: "isinstance_int n \<and> 0 \<le> int_of n \<and> int_of n \<le> 74 \<longrightarrow>
       NeoPixels_number_of_leds_setter n p dev =
         (Inr (), dev\<lparr>wire := wire dev @
            [Write [reg_num_num_leds p, int_of n mod 256, int_of n div 256 mod 256]]\<rparr>)"
    using count_setter_ok [of n p dev] by blast
  have bri: "float_rounding fl
       \<and> (isinstance_float br \<or> isinstance_int br) \<and> 0 \<le> num_val br \<and> num_val br \<le> 1 \<longrightarrow>
       NeoPixels_brightness_setter fl br p dev =
         (Inr (), dev\<lparr>wire := wire dev @ [Write [reg_num_brightness p, round_255 fl br]]\<rparr>)"
    using brightness_setter_ok [of fl br p dev] by blast
  have pwm: "isinstance_int pw \<and> 0 \<le> int_of pw \<and> int_of pw \<le> 255 \<longrightarrow>
       PbHubPwmOutput_value_setter pw e dev =
         (Inr (), dev\<lparr>wire := wire dev @ [Write [reg_num e, int_of pw mod 256]]\<rparr>)"
    using setters_write(2) [of pw e dev] by blast
  have ang: "isinstance_int an \<and> 0 \<le> int_of an \<and> int_of an \<le> 180 \<longrightarrow>
       PbHubServo_angle_setter an sv dev =
         (Inr (), dev\<lparr>wire := wire dev @ [Write [reg_num_angle sv, int_of an]]\<rparr>)"
    using setters_write(3) [of an sv dev] by blast
  have pul: "isinstance_int pu \<and> 500 \<le> int_of pu \<and> int_of pu \<le> 2500 \<longrightarrow>
       PbHubServo_pulse_setter pu sv dev =
         (Inr (), dev\<lparr>wire := wire dev @
            [Write [reg_num_pulse sv, int_of pu mod 256, int_of pu div 256 mod 256]]\<rparr>)"
    using setters_write(4) [of pu sv dev] by blast
  note regs = digital_input_regs [OF assms] digital_output_regs [OF assms]
    analog_input_regs [OF assms] pwm_output_regs [OF assms] servo_regs [OF assms]
    neopixels_regs [of "PInt c" 0 0 0 0, simplified, OF assms]
  from regs getters_selectors(1-4) [of e dev] getters_selectors(5-6) [of sv dev]
    getters_selectors(7) [of p dev] setters_write(1) [of v e dev]
    pwm ang pul cnt bri pix rng
  show ?thesis
    by (intro conjI) (simp_all only: CHANNEL_BASE_REG_def)
qed

text \<open>
  Channel 5, whose base 0xA0 breaks the step of 0x10 between the other bases: the
  cached selectors, an analog read, and one valid write of every setter.
\<close>

theorem register_selectors_witness:
  "(0::int) \<le> 5 \<and> (5::int) \<le> 5
   \<and> PbHubDigitalInput_init (PInt 5) (PInt 0) = Inr \<lparr>channel = PInt 5, io = PInt 0, reg_num = 0xA4\<rparr>
   \<and> PbHubDigitalInput_init (PInt 5) (PInt 1) = Inr \<lparr>channel = PInt 5, io = PInt 1, reg_num = 0xA5\<rparr>
   \<and> PbHubDigitalOutput_init (PInt 5) (PInt 0) = Inr \<lparr>channel = PInt 5, io = PInt 0, reg_num = 0xA0\<rparr>
   \<and> PbHubDigitalOutput_init (PInt 5) (PInt 1) = Inr \<lparr>channel = PInt 5, io = PInt 1, reg_num = 0xA1\<rparr>
   \<and> PbHubAnalogInput_init (PInt 5) = Inr \<lparr>channel = PInt 5, io = PInt 0, reg_num = 0xA6\<rparr>
   \<and> PbHubPwmOutput_init (PInt 5) (PInt 0) = Inr \<lparr>channel = PInt 5, io = PInt 0, reg_num = 0xA2\<rparr>
   \<and> PbHubPwmOutput_init (PInt 5) (PInt 1) = Inr \<lparr>channel = PInt 5, io = PInt 1, reg_num = 0xA3\<rparr>
   \<and> PbHubServo_init (PInt 5) (PInt 0) =
       Inr \<lparr>channel = PInt 5, io = PInt 0, reg_num_angle = 0xAC, reg_num_pulse = 0xAE\<rparr>
   \<and> PbHubServo_init (PInt 5) (PInt 1) =
       Inr \<lparr>channel = PInt 5, io = PInt 1, reg_num_angle = 0xAD, reg_num_pulse = 0xAF\<rparr>
   \<and> NeoPixels_set_reg \<lparr>led_channel = PInt 5, reg_num_num_leds = 0, reg_num_brightness = 0,
         reg_num_one_led_color = 0, reg_num_range_led_color = 0\<rparr> =
       Inr \<lparr>led_channel = PInt 5, reg_num_num_leds = 0xA8, reg_num_brightness = 0xAB,
            reg_num_one_led_color = 0xA9, reg_num_range_led_color = 0xAA\<rparr>
   \<and> selectors (wire (snd (PbHubAnalogInput_value
         \<lparr>channel = PInt 5, io = PInt 0, reg_num = 0xA6\<rparr>
         \<lparr>wire = [], pending = [0x34, 0x12]\<rparr>))) = [0xA6]
   \<and> PbHubPwmOutput_value_setter (PInt 127) \<lparr>channel = PInt 5, io = PInt 0, reg_num = 0xA6\<rparr>
         \<lparr>wire = [], pending = [0x34, 0x12]\<rparr> =
       (Inr (), \<lparr>wire = [Write [0xA6, 127]], pending = [0x34, 0x12]\<rparr>)
   \<and> PbHubServo_angle_setter (PInt 90)
         \<lparr>channel = PInt 5, io = PInt 1, reg_num_angle = 0xAD, reg_num_pulse = 0xAF\<rparr>
         \<lparr>wire = [], pending = [0x34, 0x12]\<rparr> =
       (Inr (), \<lparr>wire = [Write [0xAD, 90]], pending = [0x34, 0x12]\<rparr>)
   \<and> PbHubServo_pulse_setter (PInt 1500)
         \<lparr>channel = PInt 5, io = PInt 1, reg_num_angle = 0xAD, reg_num_pulse = 0xAF\<rparr>
         \<lparr>wire = [], pending = [0x34, 0x12]\<rparr> =
       (Inr (), \<lparr>wire = [Write [0xAF, 0xDC, 0x05]], pending = [0x34, 0x12]\<rparr>)
   \<and> NeoPixels_number_of_leds_setter (PInt 10) strip0 \<lparr>wire = [], pending = [0x34, 0x12]\<rparr> =
       (Inr (), \<lparr>wire = [Write [0x48, 10, 0]], pending = [0x34, 0x12]\<rparr>)
   \<and> NeoPixels_brightness_setter round_2p52 (PInt 1) strip0
         \<lparr>wire = [], pending = [0x34, 0x12]\<rparr> =
       (Inr (), \<lparr>wire = [Write [0x4B, 255]], pending = [0x34, 0x12]\<rparr>)
   \<and> NeoPixels_setitem (PInt 3) (PInt 0xFF00FF) strip0 \<lparr>wire = [], pending = [0x34, 0x12]\<rparr> =
       (Inr (), \<lparr>wire = [Write [0x49, 3, 0, 0xFF, 0x00, 0xFF]], pending = [0x34, 0x12]\<rparr>)
   \<and> NeoPixels_setitem (PSlice (PInt 1) (PInt 3) PNone) (PInt 0xFF00FF) strip0
         \<lparr>wire = [], pending = [0x34, 0x12]\<rparr> =
       (Inr (), \<lparr>wire = [Write [0x4A, 1, 0, 2, 0, 0xFF, 0x00, 0xFF]],
                pending = [0x34, 0x12]\<rparr>)"
proof -
  have c: "color_bytes (PInt 0xFF00FF) = Inr [0xFF, 0x00, 0xFF]"
    by (simp add: color_bytes_int)
  have b: "round_255 round_2p52 (PInt 1) = 255"
    by (simp add: round_255_def)
  show ?thesis
    using register_selectors
      [where c = 5 and dev = "\<lparr>wire = [], pending = [0x34, 0x12]\<rparr>"
         and e = "\<lparr>channel = PInt 5, io = PInt 0, reg_num = 0xA6\<rparr>"
         and sv = "\<lparr>channel = PInt 5, io = PInt 1, reg_num_angle = 0xAD,
                    reg_num_pulse = 0xAF\<rparr>"
         and v = "PInt 0" and p = strip0 and pw = "PInt 127" and an = "PInt 90"
         and pu = "PInt 1500" and n = "PInt 10" and fl = round_2p52 and br = "PInt 1"
         and index = "PInt 3" and color = "PInt 0xFF00FF" and r = 255 and g = 0 and b = 255
         and s = 1 and t = 3 and st = PNone]
    by (simp add: CHANNEL_BASE_REG_def round_2p52_rounding b c) (simp add: strip0_def)
qed

end
